theory Spec2Isabelle
  imports Main "HOL-Library.Word"
begin

section \<open>Bytes\<close>

text \<open>A Python \<^verbatim>\<open>bytes\<close> value is a sequence of integers in 0..255.\<close>

type_synonym byte = "8 word"
type_synonym bytes = "byte list"

section \<open>Escaping and formatting utilities\<close>

text \<open>
  \<^verbatim>\<open>
  def _truncate_bitmap(what):
      for i in range(len(what) - 1, -1, -1):
          if what[i] != 0:
              return what[0: i + 1]
      return what[0:1]
  \<close>
  The loop counter runs from \<open>len(what) - 1\<close> down to 0; \<open>truncate_loop what n\<close> is the
  loop with \<open>n\<close> indices still to visit, the next one being \<open>n - 1\<close>. A slice
  \<open>what[0:k]\<close> never raises: it is \<open>take k what\<close>.
\<close>

fun truncate_loop :: "bytes \<Rightarrow> nat \<Rightarrow> bytes" where
  "truncate_loop what 0 = take 1 what"
| "truncate_loop what (Suc i) =
     (if what ! i \<noteq> 0 then take (i + 1) what else truncate_loop what i)"

definition truncate_bitmap :: "bytes \<Rightarrow> bytes" where
  "truncate_bitmap what = truncate_loop what (length what)"


section \<open>Python values, errors and names\<close>

text \<open>
  The values an attribute or an argument holds. Python compares values of different kinds
  as unequal, which is what equality of this datatype does.
\<close>

datatype pyval = VNone | VInt int | VStr string | VBytes bytes

text \<open>Every exception the code raises or lets through is a value of this type.\<close>

datatype error =
    NotImplementedError
  | TypeError
  | AttributeError
  | ValueError
  | ImportError
  | SyntaxError
  | BinasciiError
  | UngetBufferFull
  | RdatatypeExists int int
  | OtherError string

text \<open>
  \<^verbatim>\<open>dns.name.Name\<close> lives outside this file; only \<^verbatim>\<open>dns.name.root\<close>, the name
  with the single empty label, is used here, as the origin of the canonical form.
\<close>

datatype name = Name "string list"

definition root :: name where
  "root = Name [[]]"

section \<open>The Rdata abstraction\<close>

text \<open>
  The classes of the file are \<^verbatim>\<open>Rdata\<close> and \<^verbatim>\<open>GenericRdata\<close>; every other
  implementation is a subclass of \<^verbatim>\<open>Rdata\<close> defined in a module of its own, here
  \<open>Variant_cls\<close> with the name of that class.
\<close>

datatype klass = Rdata_cls | GenericRdata_cls | Variant_cls string

text \<open>
  An instance knows its class and holds \<open>rdclass\<close> and \<open>rdtype\<close>, the two slots that
  \<^verbatim>\<open>Rdata.__init__\<close> sets, and the slots its own class adds.
\<close>

record rdata =
  cls :: klass
  rdclass :: pyval
  rdtype :: pyval
  slots :: "string \<rightharpoonup> pyval"

text \<open>
  Modelled from the spec: the tokenizer (\<^verbatim>\<open>dns.tokenizer\<close>) is an external
  collaborator that lexes zone-file text into tokens. Of its state the code of this file
  sees the tokens still to come, already lexed, with whitespace and comments skipped, and
  the one-token buffer that \<^verbatim>\<open>unget\<close> fills. Errors of the lexer itself are not part
  of the model.
\<close>

datatype token_type = EOF | EOL | WHITESPACE | IDENTIFIER | QUOTED_STRING | COMMENT | DELIMITER

record token =
  ttype :: token_type
  tvalue :: string

record tokenizer =
  ungotten :: "token option"
  pending :: "token list"

text \<open>
  What the classes outside this file define, taken as a parameter of everything that
  calls into them: the parameter names of \<^verbatim>\<open>__init__\<close> as
  \<^verbatim>\<open>inspect.signature\<close> reports them, the constructor, and the methods
  \<^verbatim>\<open>to_wire\<close>, \<^verbatim>\<open>to_digestable\<close> (which a variant may inherit or override),
  \<^verbatim>\<open>from_text\<close> and \<^verbatim>\<open>from_wire\<close>, each indexed by the class name. A method
  either returns or raises. \<open>to_wire\<close> returns the bytes it writes to the file.
\<close>

record variants =
  v_parameters :: "string \<Rightarrow> string list"
  v_init :: "string \<Rightarrow> pyval list \<Rightarrow> error + rdata"
  v_to_wire :: "string \<Rightarrow> rdata \<Rightarrow> bool \<Rightarrow> name option \<Rightarrow> error + bytes"
  v_to_digestable :: "string \<Rightarrow> rdata \<Rightarrow> name option \<Rightarrow> error + bytes"
  v_from_text :: "string \<Rightarrow> int \<Rightarrow> int \<Rightarrow> tokenizer \<Rightarrow> name option \<Rightarrow> bool \<Rightarrow> name option
                    \<Rightarrow> error + rdata"
  v_from_wire :: "string \<Rightarrow> int \<Rightarrow> int \<Rightarrow> bytes \<Rightarrow> int \<Rightarrow> int \<Rightarrow> name option \<Rightarrow> error + rdata"

text \<open>
  \<^verbatim>\<open>
  def __init__(self, rdclass, rdtype):
      object.__setattr__(self, 'rdclass', rdclass)
      object.__setattr__(self, 'rdtype', rdtype)
  \<close>
\<close>

definition Rdata_init :: "pyval \<Rightarrow> pyval \<Rightarrow> rdata" where
  "Rdata_init c t = \<lparr>cls = Rdata_cls, rdclass = c, rdtype = t, slots = Map.empty\<rparr>"

text \<open>
  \<^verbatim>\<open>
  def __init__(self, rdclass, rdtype, data):
      super(GenericRdata, self).__init__(rdclass, rdtype)
      object.__setattr__(self, 'data', data)
  \<close>
\<close>

definition GenericRdata_init :: "pyval \<Rightarrow> pyval \<Rightarrow> pyval \<Rightarrow> rdata" where
  "GenericRdata_init c t d =
     (Rdata_init c t)\<lparr>cls := GenericRdata_cls, slots := [''data'' \<mapsto> d]\<rparr>"

text \<open>
  \<^verbatim>\<open>
  def __setattr__(self, name, value):
      raise TypeError("object doesn't support attribute assignment")
  def __delattr__(self, name):
      raise TypeError("object doesn't support attribute deletion")
  \<close>
  A successful assignment or deletion would return the changed instance.
  \<^verbatim>\<open>GenericRdata\<close> defines neither method, so both resolve to these.
\<close>

definition rdata_setattr :: "rdata \<Rightarrow> string \<Rightarrow> pyval \<Rightarrow> error + rdata" where
  "rdata_setattr self name value = Inl TypeError"

definition rdata_delattr :: "rdata \<Rightarrow> string \<Rightarrow> error + rdata" where
  "rdata_delattr self name = Inl TypeError"

text \<open>Reading an attribute: a slot that was never set raises \<^verbatim>\<open>AttributeError\<close>.\<close>

definition getattr :: "rdata \<Rightarrow> string \<Rightarrow> error + pyval" where
  "getattr self key =
     (if key = ''rdclass'' then Inr (rdclass self)
      else if key = ''rdtype'' then Inr (rdtype self)
      else case slots self key of None \<Rightarrow> Inl AttributeError | Some v \<Rightarrow> Inr v)"

text \<open>
  \<^verbatim>\<open>Rdata.to_wire\<close> raises \<^verbatim>\<open>NotImplementedError\<close>;
  \<^verbatim>\<open>GenericRdata.to_wire\<close> is \<^verbatim>\<open>file.write(self.data)\<close>, and a
  \<^verbatim>\<open>BytesIO\<close> accepts bytes only. The flag \<open>compress\<close> says whether a compression
  table was passed.
\<close>

definition GenericRdata_to_wire :: "rdata \<Rightarrow> bool \<Rightarrow> name option \<Rightarrow> error + bytes" where
  "GenericRdata_to_wire self compress origin =
     (case getattr self ''data'' of
        Inl e \<Rightarrow> Inl e
      | Inr (VBytes b) \<Rightarrow> Inr b
      | Inr _ \<Rightarrow> Inl TypeError)"

definition to_wire :: "variants \<Rightarrow> rdata \<Rightarrow> bool \<Rightarrow> name option \<Rightarrow> error + bytes" where
  "to_wire V self compress origin =
     (case cls self of
        Rdata_cls \<Rightarrow> Inl NotImplementedError
      | GenericRdata_cls \<Rightarrow> GenericRdata_to_wire self compress origin
      | Variant_cls n \<Rightarrow> v_to_wire V n self compress origin)"

text \<open>
  \<^verbatim>\<open>
  def to_digestable(self, origin=None):
      f = BytesIO()
      self.to_wire(f, None, origin)
      return f.getvalue()
  \<close>
\<close>

definition Rdata_to_digestable :: "variants \<Rightarrow> rdata \<Rightarrow> name option \<Rightarrow> error + bytes" where
  "Rdata_to_digestable V self origin = to_wire V self False origin"

definition to_digestable :: "variants \<Rightarrow> rdata \<Rightarrow> name option \<Rightarrow> error + bytes" where
  "to_digestable V self origin =
     (case cls self of
        Variant_cls n \<Rightarrow> v_to_digestable V n self origin
      | _ \<Rightarrow> Rdata_to_digestable V self origin)"

text \<open>
  Python orders two \<^verbatim>\<open>bytes\<close> values by their first differing byte, as unsigned
  numbers, and a proper prefix before the longer value; \<open>bytes_gt our their\<close> is
  \<^verbatim>\<open>our > their\<close>.
\<close>

fun bytes_gt :: "bytes \<Rightarrow> bytes \<Rightarrow> bool" where
  "bytes_gt [] their = False"
| "bytes_gt (x # our) [] = True"
| "bytes_gt (x # our) (y # their) = (if x = y then bytes_gt our their else y < x)"

text \<open>
  \<^verbatim>\<open>
  def _cmp(self, other):
      our = self.to_digestable(dns.name.root)
      their = other.to_digestable(dns.name.root)
      if our == their:
          return 0
      elif our > their:
          return 1
      else:
          return -1
  \<close>
\<close>

definition cmp :: "variants \<Rightarrow> rdata \<Rightarrow> rdata \<Rightarrow> error + int" where
  "cmp V self other =
     (case to_digestable V self (Some root) of
        Inl e \<Rightarrow> Inl e
      | Inr our \<Rightarrow>
          (case to_digestable V other (Some root) of
             Inl e \<Rightarrow> Inl e
           | Inr their \<Rightarrow>
               if our = their then Inr 0
               else if bytes_gt our their then Inr 1
               else Inr (- 1)))"

text \<open>
  The right operand of a comparison is any Python object: an instance of \<^verbatim>\<open>Rdata\<close>
  (of any subclass) or something else. \<^verbatim>\<open>__eq__\<close> and \<^verbatim>\<open>__ne__\<close> return a
  truth value; the four ordering methods return a truth value or \<^verbatim>\<open>NotImplemented\<close>.
\<close>

datatype pyobj = Instance rdata | Value pyval

datatype cmp_result = NotImplemented | Bool bool

definition rdata_eq :: "variants \<Rightarrow> rdata \<Rightarrow> pyobj \<Rightarrow> error + bool" where
  "rdata_eq V self other =
     (case other of
        Value x \<Rightarrow> Inr False
      | Instance other \<Rightarrow>
          if rdclass self \<noteq> rdclass other \<or> rdtype self \<noteq> rdtype other then Inr False
          else (case cmp V self other of Inl e \<Rightarrow> Inl e | Inr c \<Rightarrow> Inr (c = 0)))"

definition rdata_ne :: "variants \<Rightarrow> rdata \<Rightarrow> pyobj \<Rightarrow> error + bool" where
  "rdata_ne V self other =
     (case other of
        Value x \<Rightarrow> Inr True
      | Instance other \<Rightarrow>
          if rdclass self \<noteq> rdclass other \<or> rdtype self \<noteq> rdtype other then Inr True
          else (case cmp V self other of Inl e \<Rightarrow> Inl e | Inr c \<Rightarrow> Inr (c \<noteq> 0)))"

text \<open>
  \<^verbatim>\<open>
  def __lt__(self, other):
      if not isinstance(other, Rdata) or \
              self.rdclass != other.rdclass or self.rdtype != other.rdtype:
          return NotImplemented
      return self._cmp(other) < 0
  \<close>
  and the same with \<^verbatim>\<open><=\<close>, \<^verbatim>\<open>>=\<close> and \<^verbatim>\<open>>\<close>; \<open>test\<close> is the comparison
  of the result of \<^verbatim>\<open>_cmp\<close> with 0.
\<close>

definition rdata_order :: "(int \<Rightarrow> bool) \<Rightarrow> variants \<Rightarrow> rdata \<Rightarrow> pyobj \<Rightarrow> error + cmp_result" where
  "rdata_order test V self other =
     (case other of
        Value x \<Rightarrow> Inr NotImplemented
      | Instance other \<Rightarrow>
          if rdclass self \<noteq> rdclass other \<or> rdtype self \<noteq> rdtype other
          then Inr NotImplemented
          else (case cmp V self other of Inl e \<Rightarrow> Inl e | Inr c \<Rightarrow> Inr (Bool (test c))))"

definition rdata_lt :: "variants \<Rightarrow> rdata \<Rightarrow> pyobj \<Rightarrow> error + cmp_result" where
  "rdata_lt = rdata_order (\<lambda>c. c < 0)"

definition rdata_le :: "variants \<Rightarrow> rdata \<Rightarrow> pyobj \<Rightarrow> error + cmp_result" where
  "rdata_le = rdata_order (\<lambda>c. c \<le> 0)"

definition rdata_ge :: "variants \<Rightarrow> rdata \<Rightarrow> pyobj \<Rightarrow> error + cmp_result" where
  "rdata_ge = rdata_order (\<lambda>c. c \<ge> 0)"

definition rdata_gt :: "variants \<Rightarrow> rdata \<Rightarrow> pyobj \<Rightarrow> error + cmp_result" where
  "rdata_gt = rdata_order (\<lambda>c. c > 0)"

text \<open>
  \<^verbatim>\<open>
  def __hash__(self):
      return hash(self.to_digestable(dns.name.root))
  \<close>
  Python's \<^verbatim>\<open>hash\<close> on bytes is a function of the bytes, fixed for the life of the
  process; it is the parameter \<open>hash_bytes\<close>.
\<close>

definition rdata_hash :: "variants \<Rightarrow> (bytes \<Rightarrow> int) \<Rightarrow> rdata \<Rightarrow> error + int" where
  "rdata_hash V hash_bytes self =
     (case to_digestable V self (Some root) of
        Inl e \<Rightarrow> Inl e
      | Inr digest \<Rightarrow> Inr (hash_bytes digest))"

text \<open>
  The variant table of a process in which no class outside this file is loaded; it is used
  to evaluate the definitions on concrete inputs.
\<close>

definition no_variants :: variants where
  "no_variants =
     \<lparr>v_parameters = (\<lambda>n. []),
      v_init = (\<lambda>n args. Inl NotImplementedError),
      v_to_wire = (\<lambda>n self compress origin. Inl NotImplementedError),
      v_to_digestable = (\<lambda>n self origin. Inl NotImplementedError),
      v_from_text = (\<lambda>n c t tok origin relativize relativize_to. Inl NotImplementedError),
      v_from_wire = (\<lambda>n c t wire current rdlen origin. Inl NotImplementedError)\<rparr>"

section \<open>Copying a value with overrides\<close>

text \<open>
  \<^verbatim>\<open>inspect.signature(self.__init__).parameters\<close>: the parameter names of the
  constructor of the instance's class, in order, without \<^verbatim>\<open>self\<close>.
\<close>

definition parameters :: "variants \<Rightarrow> klass \<Rightarrow> string list" where
  "parameters V k =
     (case k of
        Rdata_cls \<Rightarrow> [''rdclass'', ''rdtype'']
      | GenericRdata_cls \<Rightarrow> [''rdclass'', ''rdtype'', ''data'']
      | Variant_cls n \<Rightarrow> v_parameters V n)"

text \<open>
  \<^verbatim>\<open>self.__class__(*args)\<close>: calling a class of this file with the wrong number of
  arguments raises \<^verbatim>\<open>TypeError\<close>.
\<close>

fun cls_call :: "variants \<Rightarrow> klass \<Rightarrow> pyval list \<Rightarrow> error + rdata" where
  "cls_call V Rdata_cls [c, t] = Inr (Rdata_init c t)"
| "cls_call V Rdata_cls args = Inl TypeError"
| "cls_call V GenericRdata_cls [c, t, d] = Inr (GenericRdata_init c t d)"
| "cls_call V GenericRdata_cls args = Inl TypeError"
| "cls_call V (Variant_cls n) args = v_init V n args"

text \<open>
  \<^verbatim>\<open>
  for key in kwargs:
      if key not in parameters:
          raise AttributeError("'{}' object has no attribute '{}'" ...)
      if key in ('rdclass', 'rdtype'):
          raise AttributeError("Cannot overwrite '{}' attribute '{}'" ...)
  \<close>
  The keyword arguments are the pairs of name and value in the order of the call; the
  result is the exception raised, if any.
\<close>

fun check_kwargs :: "string list \<Rightarrow> (string \<times> pyval) list \<Rightarrow> error option" where
  "check_kwargs ps [] = None"
| "check_kwargs ps ((key, x) # kwargs) =
     (if key \<notin> set ps then Some AttributeError
      else if key \<in> {''rdclass'', ''rdtype''} then Some AttributeError
      else check_kwargs ps kwargs)"

text \<open>
  \<^verbatim>\<open>args = (kwargs.get(key, getattr(self, key)) for key in parameters)\<close>: the current
  value is read for every parameter, overridden or not, so a parameter that is not an
  attribute raises.
\<close>

fun replace_args :: "rdata \<Rightarrow> (string \<times> pyval) list \<Rightarrow> string list \<Rightarrow> error + pyval list" where
  "replace_args self kwargs [] = Inr []"
| "replace_args self kwargs (key # keys) =
     (case getattr self key of
        Inl e \<Rightarrow> Inl e
      | Inr cur \<Rightarrow>
          (case replace_args self kwargs keys of
             Inl e \<Rightarrow> Inl e
           | Inr rest \<Rightarrow> Inr ((case map_of kwargs key of Some x \<Rightarrow> x | None \<Rightarrow> cur) # rest)))"

text \<open>
  \<^verbatim>\<open>
  def replace(self, **kwargs):
      parameters = inspect.signature(self.__init__).parameters
      for key in kwargs: ...
      args = (kwargs.get(key, getattr(self, key)) for key in parameters)
      return self.__class__(*args)
  \<close>
  The instance is bound to the parameter \<^verbatim>\<open>self\<close>, so a keyword argument of that
  name is a second value for it: the call raises \<^verbatim>\<open>TypeError\<close> and the body does
  not run. Every other keyword goes into \<^verbatim>\<open>kwargs\<close>.
\<close>

definition replace :: "variants \<Rightarrow> rdata \<Rightarrow> (string \<times> pyval) list \<Rightarrow> error + rdata" where
  "replace V self kwargs =
     (if ''self'' \<in> set (map fst kwargs) then Inl TypeError
      else
        (case check_kwargs (parameters V (cls self)) kwargs of
           Some e \<Rightarrow> Inl e
         | None \<Rightarrow>
             (case replace_args self kwargs (parameters V (cls self)) of
                Inl e \<Rightarrow> Inl e
              | Inr args \<Rightarrow> cls_call V (cls self) args)))"

text \<open>
  A constructor that stores each of its arguments in the attribute named like the
  parameter, as the two constructors of this file do.
\<close>

definition constructor_stores :: "variants \<Rightarrow> klass \<Rightarrow> bool" where
  "constructor_stores V k =
     (\<forall>args w. cls_call V k args = Inr w \<longrightarrow>
        cls w = k \<and> length args = length (parameters V k) \<and>
        (\<forall>i<length args. getattr w (parameters V k ! i) = Inr (args ! i)))"

section \<open>The tokenizer and the hex decoder\<close>

text \<open>
  Modelled from the spec: the end-of-file token and the two tests on a token that the code
  of this file calls, \<^verbatim>\<open>is_identifier\<close> and \<^verbatim>\<open>is_eol_or_eof\<close>; they are
  part of the tokenizer.
\<close>

definition eof_token :: token where
  "eof_token = \<lparr>ttype = EOF, tvalue = []\<rparr>"

definition is_identifier :: "token \<Rightarrow> bool" where
  "is_identifier token = (ttype token = IDENTIFIER)"

definition is_eol_or_eof :: "token \<Rightarrow> bool" where
  "is_eol_or_eof token = (ttype token = EOL \<or> ttype token = EOF)"

text \<open>
  Modelled from the spec: the token stream of the tokenizer, read one token at a time
  with one token of look-back.
  \<^verbatim>\<open>tok.get()\<close> returns the token put back by \<^verbatim>\<open>unget\<close> if there is one, else
  the next token of the input, and the end-of-file token once the input is used up.
  \<^verbatim>\<open>tok.unget(token)\<close> raises \<^verbatim>\<open>UngetBufferFull\<close> when a token is already put
  back.
\<close>

definition tok_get :: "tokenizer \<Rightarrow> token \<times> tokenizer" where
  "tok_get tok =
     (case ungotten tok of
        Some token \<Rightarrow> (token, tok\<lparr>ungotten := None\<rparr>)
      | None \<Rightarrow>
          (case pending tok of
             [] \<Rightarrow> (eof_token, tok)
           | token # rest \<Rightarrow> (token, tok\<lparr>pending := rest\<rparr>)))"

definition tok_unget :: "tokenizer \<Rightarrow> token \<Rightarrow> error + tokenizer" where
  "tok_unget tok token =
     (case ungotten tok of
        Some t \<Rightarrow> Inl UngetBufferFull
      | None \<Rightarrow> Inr (tok\<lparr>ungotten := Some token\<rparr>))"

text \<open>
  Modelled from the spec: \<^verbatim>\<open>tok.get_int()\<close> reads the next token, which must be an
  integer: an identifier made of decimal digits, at least one. Anything else is a syntax
  error.
\<close>

definition is_digit :: "char \<Rightarrow> bool" where
  "is_digit ch = (ch \<in> set ''0123456789'')"

definition digit_value :: "char \<Rightarrow> nat" where
  "digit_value ch = of_char ch - 48"

definition int_of_digits :: "string \<Rightarrow> int" where
  "int_of_digits s = int (foldl (\<lambda>n ch. 10 * n + digit_value ch) 0 s)"

definition is_integer_token :: "token \<Rightarrow> bool" where
  "is_integer_token token =
     (is_identifier token \<and> tvalue token \<noteq> [] \<and> list_all is_digit (tvalue token))"

definition tok_get_int :: "tokenizer \<Rightarrow> error + int \<times> tokenizer" where
  "tok_get_int tok =
     (case tok_get tok of
        (token, tok') \<Rightarrow>
          if \<not> is_identifier token then Inl SyntaxError
          else if \<not> (tvalue token \<noteq> [] \<and> list_all is_digit (tvalue token)) then Inl SyntaxError
          else Inr (int_of_digits (tvalue token), tok'))"

text \<open>
  \<^verbatim>\<open>binascii.unhexlify\<close> of the standard library: two hex digits, of either case,
  give one byte; an odd number of digits or a character that is no hex digit raises
  \<^verbatim>\<open>binascii.Error\<close>.
\<close>

definition hex_digit :: "char \<Rightarrow> nat option" where
  "hex_digit ch =
     (let n = of_char ch :: nat in
      if 48 \<le> n \<and> n \<le> 57 then Some (n - 48)
      else if 97 \<le> n \<and> n \<le> 102 then Some (n - 87)
      else if 65 \<le> n \<and> n \<le> 70 then Some (n - 55)
      else None)"

fun unhexlify :: "string \<Rightarrow> error + bytes" where
  "unhexlify [] = Inr []"
| "unhexlify [c] = Inl BinasciiError"
| "unhexlify (c1 # c2 # cs) =
     (case (hex_digit c1, hex_digit c2) of
        (Some h, Some l) \<Rightarrow>
          (case unhexlify cs of
             Inl e \<Rightarrow> Inl e
           | Inr data \<Rightarrow> Inr (of_nat (16 * h + l) # data))
      | _ \<Rightarrow> Inl BinasciiError)"

text \<open>Hex text that decodes: an even number of characters, each a hex digit.\<close>

definition well_formed_hex :: "string \<Rightarrow> bool" where
  "well_formed_hex s = (even (length s) \<and> list_all (\<lambda>ch. hex_digit ch \<noteq> None) s)"

section \<open>The generic fallback variant\<close>

text \<open>The two characters \<^verbatim>\<open>\#\<close> that open the generic syntax.\<close>

definition generic_marker :: string where
  "generic_marker = [CHR 0x5C, CHR ''#'']"

text \<open>
  \<^verbatim>\<open>
  chunks = []
  while 1:
      token = tok.get()
      if token.is_eol_or_eof():
          break
      chunks.append(token.value.encode())
  \<close>
  The loop ends: each turn that does not break takes one token from the tokenizer, and
  a tokenizer with nothing left returns the end-of-file token.
\<close>

definition tokens_left :: "tokenizer \<Rightarrow> nat" where
  "tokens_left tok = length (pending tok) + (case ungotten tok of None \<Rightarrow> 0 | Some t \<Rightarrow> 1)"

function read_chunks :: "tokenizer \<Rightarrow> string list \<Rightarrow> string list \<times> tokenizer" where
  "read_chunks tok chunks =
     (if is_eol_or_eof (fst (tok_get tok)) then (chunks, snd (tok_get tok))
      else read_chunks (snd (tok_get tok)) (chunks @ [tvalue (fst (tok_get tok))]))"
  by pat_completeness auto
termination
proof (relation "measure (\<lambda>(tok, chunks). tokens_left tok)")
  show "wf (measure (\<lambda>(tok, chunks). tokens_left tok))"
    by simp
next
  fix tok :: tokenizer and chunks :: "string list"
  assume "\<not> is_eol_or_eof (fst (tok_get tok))"
  then have "tokens_left (snd (tok_get tok)) < tokens_left tok"
    by (auto simp: tok_get_def tokens_left_def is_eol_or_eof_def eof_token_def
        split: option.splits list.splits)
  then show "((snd (tok_get tok), chunks @ [tvalue (fst (tok_get tok))]), (tok, chunks))
      \<in> measure (\<lambda>(tok, chunks). tokens_left tok)"
    by simp
qed

declare read_chunks.simps [simp del]

text \<open>
  \<^verbatim>\<open>
  def from_text(cls, rdclass, rdtype, tok, origin=None, relativize=True,
                relativize_to=None):
      token = tok.get()
      if not token.is_identifier() or token.value != r'\#':
          raise dns.exception.SyntaxError(r'generic rdata does not start with \#')
      length = tok.get_int()
      chunks = []
      while 1: ...
      hex = b''.join(chunks)
      data = binascii.unhexlify(hex)
      if len(data) != length:
          raise dns.exception.SyntaxError('generic rdata hex data has wrong length')
      return cls(rdclass, rdtype, data)
  \<close>
\<close>

definition GenericRdata_from_text ::
  "int \<Rightarrow> int \<Rightarrow> tokenizer \<Rightarrow> name option \<Rightarrow> bool \<Rightarrow> name option \<Rightarrow> error + rdata" where
  "GenericRdata_from_text rdclass' rdtype' tok origin relativize relativize_to =
     (case tok_get tok of
        (token, tok1) \<Rightarrow>
          if \<not> is_identifier token \<or> tvalue token \<noteq> generic_marker then Inl SyntaxError
          else
            (case tok_get_int tok1 of
               Inl e \<Rightarrow> Inl e
             | Inr (length', tok2) \<Rightarrow>
                 (case read_chunks tok2 [] of
                    (chunks, tok3) \<Rightarrow>
                      (case unhexlify (concat chunks) of
                         Inl e \<Rightarrow> Inl e
                       | Inr data \<Rightarrow>
                           if int (length data) \<noteq> length' then Inl SyntaxError
                           else Inr (GenericRdata_init (VInt rdclass') (VInt rdtype')
                                       (VBytes data))))))"

text \<open>A tokenizer over a list of lexed tokens, nothing put back.\<close>

definition tokenizer_of :: "token list \<Rightarrow> tokenizer" where
  "tokenizer_of ts = \<lparr>ungotten = None, pending = ts\<rparr>"

definition ident :: "string \<Rightarrow> token" where
  "ident s = \<lparr>ttype = IDENTIFIER, tvalue = s\<rparr>"

section \<open>The type registry\<close>

text \<open>
  \<^verbatim>\<open>dns.rdataclass.ANY\<close> and \<^verbatim>\<open>dns.rdatatype.ANY\<close> are defined outside this file;
  both are the number 255 of the DNS protocol. The lookup of step 2 uses the second as the
  class of its key and the store of step 4 uses the first.
\<close>

definition rdataclass_ANY :: int where
  "rdataclass_ANY = 255"

definition rdatatype_ANY :: int where
  "rdatatype_ANY = 255"

definition rdataclass_IN :: int where
  "rdataclass_IN = 1"

text \<open>
  Modelled from the spec: \<^verbatim>\<open>dns.rdatatype.register_type\<close> and the registry of type
  names behind it are outside this file. Registering tells that registry the display name
  of the type and whether record sets of the type hold a single member.
\<close>

record rdatatype_registry =
  by_text :: "string \<rightharpoonup> int"
  by_value :: "int \<rightharpoonup> string"
  singletons :: "int set"

definition rdatatype_register_type ::
  "rdatatype_registry \<Rightarrow> int \<Rightarrow> string \<Rightarrow> bool \<Rightarrow> rdatatype_registry" where
  "rdatatype_register_type reg rdtype' rdtype_text is_singleton' =
     reg\<lparr>by_text := (by_text reg)(rdtype_text \<mapsto> rdtype'),
         by_value := (by_value reg)(rdtype' \<mapsto> rdtype_text),
         singletons := (if is_singleton' then insert rdtype' (singletons reg)
                        else singletons reg)\<rparr>"

text \<open>
  The state of the process that this file reads and writes: the dictionary
  \<^verbatim>\<open>_rdata_classes\<close> from (class, type) to the implementing class, and the registry
  of type names.
\<close>

record state =
  rdata_classes :: "int \<times> int \<rightharpoonup> klass"
  rdatatype_names :: rdatatype_registry

text \<open>
  What the rest of the library does for this file, as parameters: the text of a class and
  of a type (each may raise, and the second reads the registry of type names),
  \<^verbatim>\<open>import_module\<close> (a module is its attributes; a module that is not there raises
  \<^verbatim>\<open>ImportError\<close>), the tokenizer made from a string, the slicing of the view that
  \<^verbatim>\<open>dns.wiredata.maybe_wrap\<close> returns, and the classes of the variants.
\<close>

type_synonym module = "string \<rightharpoonup> klass"

record environment =
  rdataclass_to_text :: "int \<Rightarrow> error + string"
  rdatatype_to_text :: "rdatatype_registry \<Rightarrow> int \<Rightarrow> error + string"
  import_module :: "string \<Rightarrow> error + module"
  tokenize :: "string \<Rightarrow> tokenizer"
  wire_slice :: "bytes \<Rightarrow> int \<Rightarrow> int \<Rightarrow> error + bytes"
  classes :: variants

text \<open>\<^verbatim>\<open>rdtype_text.replace('-', '_')\<close>\<close>

definition replace_dash :: "string \<Rightarrow> string" where
  "replace_dash s = map (\<lambda>ch. if ch = CHR ''-'' then CHR ''_'' else ch) s"

text \<open>\<^verbatim>\<open>'.'.join([_module_prefix, rdclass_text, rdtype_text])\<close>\<close>

definition module_prefix :: string where
  "module_prefix = ''dns.rdtypes''"

definition module_path :: "string \<Rightarrow> string \<Rightarrow> string" where
  "module_path rdclass_text rdtype_text =
     module_prefix @ ''.'' @ rdclass_text @ ''.'' @ rdtype_text"

text \<open>
  \<^verbatim>\<open>
  mod = import_module('.'.join([_module_prefix, rdclass_text, rdtype_text]))
  cls = getattr(mod, rdtype_text)
  \<close>
  A module without the attribute raises \<^verbatim>\<open>AttributeError\<close>.
\<close>

definition load_class :: "environment \<Rightarrow> string \<Rightarrow> string \<Rightarrow> error + klass" where
  "load_class E rdclass_text rdtype_text =
     (case import_module E (module_path rdclass_text rdtype_text) of
        Inl e \<Rightarrow> Inl e
      | Inr module \<Rightarrow>
          (case module rdtype_text of
             None \<Rightarrow> Inl AttributeError
           | Some k \<Rightarrow> Inr k))"

definition cache_put :: "state \<Rightarrow> int \<times> int \<Rightarrow> klass \<Rightarrow> state" where
  "cache_put st key k = st\<lparr>rdata_classes := (rdata_classes st)(key \<mapsto> k)\<rparr>"

text \<open>
  \<^verbatim>\<open>
  def get_rdata_class(rdclass, rdtype):
      cls = _rdata_classes.get((rdclass, rdtype))
      if not cls:
          cls = _rdata_classes.get((dns.rdatatype.ANY, rdtype))
          if not cls:
              rdclass_text = dns.rdataclass.to_text(rdclass)
              rdtype_text = dns.rdatatype.to_text(rdtype)
              rdtype_text = rdtype_text.replace('-', '_')
              try:
                  mod = import_module('.'.join([_module_prefix,
                                                rdclass_text, rdtype_text]))
                  cls = getattr(mod, rdtype_text)
                  _rdata_classes[(rdclass, rdtype)] = cls
              except ImportError:
                  try:
                      mod = import_module('.'.join([_module_prefix,
                                                    'ANY', rdtype_text]))
                      cls = getattr(mod, rdtype_text)
                      _rdata_classes[(dns.rdataclass.ANY, rdtype)] = cls
                      _rdata_classes[(rdclass, rdtype)] = cls
                  except ImportError:
                      pass
      if not cls:
          cls = GenericRdata
          _rdata_classes[(rdclass, rdtype)] = cls
      return cls
  \<close>
  A class is a true value, so \<^verbatim>\<open>not cls\<close> says that the dictionary had no entry.
  Only \<^verbatim>\<open>ImportError\<close> is caught; any other exception leaves the function, and it
  does so before the dictionary is written. The result is the class or the exception,
  with the state after the call.
\<close>

definition get_rdata_class ::
  "environment \<Rightarrow> state \<Rightarrow> int \<Rightarrow> int \<Rightarrow> (error + klass) \<times> state" where
  "get_rdata_class E st rdclass' rdtype' =
     (case rdata_classes st (rdclass', rdtype') of
        Some k \<Rightarrow> (Inr k, st)
      | None \<Rightarrow>
          (case rdata_classes st (rdatatype_ANY, rdtype') of
             Some k \<Rightarrow> (Inr k, st)
           | None \<Rightarrow>
               (case rdataclass_to_text E rdclass' of
                  Inl e \<Rightarrow> (Inl e, st)
                | Inr rdclass_text \<Rightarrow>
                    (case rdatatype_to_text E (rdatatype_names st) rdtype' of
                       Inl e \<Rightarrow> (Inl e, st)
                     | Inr text \<Rightarrow>
                         (case load_class E rdclass_text (replace_dash text) of
                            Inr k \<Rightarrow> (Inr k, cache_put st (rdclass', rdtype') k)
                          | Inl e \<Rightarrow>
                              if e \<noteq> ImportError then (Inl e, st)
                              else
                                (case load_class E ''ANY'' (replace_dash text) of
                                   Inr k \<Rightarrow>
                                     (Inr k,
                                      cache_put (cache_put st (rdataclass_ANY, rdtype') k)
                                        (rdclass', rdtype') k)
                                 | Inl e' \<Rightarrow>
                                     if e' \<noteq> ImportError then (Inl e', st)
                                     else (Inr GenericRdata_cls,
                                           cache_put st (rdclass', rdtype')
                                             GenericRdata_cls)))))))"

section \<open>The dispatch entry points\<close>








text \<open>
  \<^verbatim>\<open>
  def register_type(implementation, rdtype, rdtype_text, is_singleton=False,
                    rdclass=dns.rdataclass.IN):
      existing_cls = get_rdata_class(rdclass, rdtype)
      if existing_cls != GenericRdata:
          raise RdatatypeExists(rdclass=rdclass, rdtype=rdtype)
      _rdata_classes[(rdclass, rdtype)] = getattr(implementation,
                                                  rdtype_text.replace('-', '_'))
      dns.rdatatype.register_type(rdtype, rdtype_text, is_singleton)
  \<close>
  The implementation is a module; the function returns nothing.
\<close>

definition register_type ::
  "environment \<Rightarrow> state \<Rightarrow> module \<Rightarrow> int \<Rightarrow> string \<Rightarrow> bool \<Rightarrow> int \<Rightarrow> (error + unit) \<times> state" where
  "register_type E st implementation rdtype' rdtype_text is_singleton' rdclass' =
     (case get_rdata_class E st rdclass' rdtype' of
        (Inl e, st1) \<Rightarrow> (Inl e, st1)
      | (Inr existing_cls, st1) \<Rightarrow>
          if existing_cls \<noteq> GenericRdata_cls
          then (Inl (RdatatypeExists rdclass' rdtype'), st1)
          else
            (case implementation (replace_dash rdtype_text) of
               None \<Rightarrow> (Inl AttributeError, st1)
             | Some k \<Rightarrow>
                 (Inr (),
                  (cache_put st1 (rdclass', rdtype') k)
                    \<lparr>rdatatype_names :=
                       rdatatype_register_type (rdatatype_names st1) rdtype' rdtype_text
                         is_singleton'\<rparr>)))"

text \<open>
  The state that a successful registration of the class \<open>k\<close> leaves: the key bound to
  \<open>k\<close> and the registry of type names informed.
\<close>

definition registered :: "state \<Rightarrow> int \<Rightarrow> int \<Rightarrow> klass \<Rightarrow> string \<Rightarrow> bool \<Rightarrow> state" where
  "registered st1 c t k tname sing =
     (cache_put st1 (c, t) k)
       \<lparr>rdatatype_names := rdatatype_register_type (rdatatype_names st1) t tname sing\<rparr>"

text \<open>
  A process with an empty dictionary and an empty registry of names, and a library in
  which every class and type has a text, no module can be imported and a slice is
  Python's slice of bytes; they are used to evaluate the definitions on concrete inputs.
\<close>

definition empty_state :: state where
  "empty_state =
     \<lparr>rdata_classes = Map.empty,
      rdatatype_names = \<lparr>by_text = Map.empty, by_value = Map.empty, singletons = {}\<rparr>\<rparr>"

definition bare_environment :: environment where
  "bare_environment =
     \<lparr>rdataclass_to_text = (\<lambda>c. Inr ''IN''),
      rdatatype_to_text = (\<lambda>reg t. Inr ''TYPE9999''),
      import_module = (\<lambda>path. Inl ImportError),
      tokenize = (\<lambda>s. tokenizer_of []),
      wire_slice = (\<lambda>wire i j. Inr (take (nat j - nat i) (drop (nat i) wire))),
      classes = no_variants\<rparr>"




section \<open>Properties of the formatting utilities\<close>

lemma truncate_loop_all_zero:
  "(\<forall>j<n. what ! j = 0) \<Longrightarrow> truncate_loop what n = take 1 what"
  by (induction n) auto

lemma truncate_loop_last_nonzero:
  "\<exists>j<n. what ! j \<noteq> 0 \<Longrightarrow>
   \<exists>m<n. truncate_loop what n = take (Suc m) what \<and> what ! m \<noteq> 0 \<and>
         (\<forall>j. m < j \<and> j < n \<longrightarrow> what ! j = 0)"
proof (induction n)
  case 0
  then show ?case by simp
next
  case (Suc n)
  show ?case
  proof (cases "what ! n = 0")
    case False
    then show ?thesis by (intro exI[of _ n]) auto
  next
    case True
    with Suc.prems have "\<exists>j<n. what ! j \<noteq> 0"
      by (metis less_Suc_eq)
    from Suc.IH[OF this] obtain m where m: "m < n" "truncate_loop what n = take (Suc m) what"
      "what ! m \<noteq> 0" "\<forall>j. m < j \<and> j < n \<longrightarrow> what ! j = 0" by blast
    show ?thesis
      using True m by (intro exI[of _ m]) (auto simp: less_Suc_eq)
  qed
qed

lemma truncate_bitmap_nonzero:
  assumes "\<exists>b\<in>set what. b \<noteq> 0"
  shows "\<exists>m<length what. truncate_bitmap what = take (Suc m) what \<and> what ! m \<noteq> 0 \<and>
           (\<forall>j. m < j \<and> j < length what \<longrightarrow> what ! j = 0)"
proof -
  from assms have "\<exists>j<length what. what ! j \<noteq> 0"
    by (metis in_set_conv_nth)
  from truncate_loop_last_nonzero[OF this] show ?thesis
    by (simp add: truncate_bitmap_def)
qed

lemma truncate_bitmap_all_zero:
  assumes "\<forall>b\<in>set what. b = 0"
  shows "truncate_bitmap what = take 1 what"
proof -
  from assms have "\<forall>j<length what. what ! j = 0" by simp
  then show ?thesis
    unfolding truncate_bitmap_def by (rule truncate_loop_all_zero)
qed

lemma truncate_bitmap_is_prefix: "\<exists>n. truncate_bitmap what = take n what"
proof (cases "\<exists>b\<in>set what. b \<noteq> 0")
  case True
  from truncate_bitmap_nonzero[OF this] show ?thesis by blast
next
  case False
  then have "truncate_bitmap what = take 1 what"
    by (intro truncate_bitmap_all_zero) blast
  then show ?thesis by blast
qed

text \<open>
  C6, as stated, fails twice. On the empty input the slice \<open>what[0:1]\<close> is empty, so the
  result has length 0, not at least 1. And where a zero byte lies between two non-zero
  bytes the result is not the shortest prefix ending in a non-zero byte: for
  \<open>01 00 02 00\<close> the code returns \<open>01 00 02\<close>, while the prefix \<open>01\<close> is shorter and also
  ends in a non-zero byte.
\<close>

theorem truncate_bitmap_shortest_counterexample:
  "truncate_bitmap [] = [] \<and> length (truncate_bitmap []) < 1 \<and>
   truncate_bitmap [1, 0, 2, 0] = [1, 0, 2] \<and>
   take 1 [1, 0, 2, 0 :: byte] = [1] \<and> last [1 :: byte] \<noteq> 0 \<and>
   length [1 :: byte] < length (truncate_bitmap [1, 0, 2, 0])"
  by (simp add: truncate_bitmap_def)

text \<open>
  C6, amended: \<open>truncate_bitmap\<close> returns a prefix of its input. If the input has a
  non-zero byte, the result is the longest prefix whose last byte is non-zero (the input
  without its trailing zero bytes): it ends in a non-zero byte and no longer prefix does.
  If every byte is zero, the result is the first byte only, and it is empty when the input
  is empty; so the result has length at least 1 exactly for a non-empty input. The two
  examples of the specification hold.
\<close>

theorem truncate_bitmap_longest_prefix:
  "(\<exists>n. truncate_bitmap what = take n what) \<and>
   ((\<exists>b\<in>set what. b \<noteq> 0) \<longrightarrow>
      truncate_bitmap what \<noteq> [] \<and> last (truncate_bitmap what) \<noteq> 0 \<and>
      (\<forall>k. 0 < k \<and> k \<le> length what \<and> what ! (k - 1) \<noteq> 0
           \<longrightarrow> k \<le> length (truncate_bitmap what))) \<and>
   ((\<forall>b\<in>set what. b = 0) \<longrightarrow> truncate_bitmap what = take 1 what) \<and>
   (what \<noteq> [] \<longrightarrow> 1 \<le> length (truncate_bitmap what)) \<and>
   (what = [] \<longrightarrow> truncate_bitmap what = []) \<and>
   truncate_bitmap [1, 2, 0, 0] = [1, 2] \<and>
   truncate_bitmap [0, 0] = [0]"
proof -
  have prefix: "\<exists>n. truncate_bitmap what = take n what"
    by (rule truncate_bitmap_is_prefix)
  have nonzero: "truncate_bitmap what \<noteq> [] \<and> last (truncate_bitmap what) \<noteq> 0 \<and>
      (\<forall>k. 0 < k \<and> k \<le> length what \<and> what ! (k - 1) \<noteq> 0
           \<longrightarrow> k \<le> length (truncate_bitmap what))"
    if "\<exists>b\<in>set what. b \<noteq> 0"
  proof -
    from truncate_bitmap_nonzero[OF that] obtain m where m: "m < length what"
      "truncate_bitmap what = take (Suc m) what" "what ! m \<noteq> 0"
      "\<forall>j. m < j \<and> j < length what \<longrightarrow> what ! j = 0" by blast
    have len: "length (truncate_bitmap what) = Suc m"
      using m(1,2) by simp
    have ne: "truncate_bitmap what \<noteq> []"
      using len by auto
    have "last (truncate_bitmap what) = truncate_bitmap what ! m"
      using ne len by (simp add: last_conv_nth)
    also have "\<dots> = what ! m"
      using m(2) by simp
    finally have lst: "last (truncate_bitmap what) \<noteq> 0"
      using m(3) by simp
    have longest: "k \<le> length (truncate_bitmap what)"
      if k: "0 < k \<and> k \<le> length what \<and> what ! (k - 1) \<noteq> 0" for k
    proof (rule ccontr)
      assume "\<not> k \<le> length (truncate_bitmap what)"
      then have "m < k - 1 \<and> k - 1 < length what"
        using len k by linarith
      with m(4) have "what ! (k - 1) = 0" by blast
      with k show False by simp
    qed
    from ne lst longest show ?thesis by blast
  qed
  have zero: "truncate_bitmap what = take 1 what" if "\<forall>b\<in>set what. b = 0"
    using that by (rule truncate_bitmap_all_zero)
  have nonempty: "1 \<le> length (truncate_bitmap what)" if "what \<noteq> []"
  proof (cases "\<exists>b\<in>set what. b \<noteq> 0")
    case True
    from nonzero[OF this] show ?thesis
      by (simp add: Suc_le_eq)
  next
    case False
    then have "truncate_bitmap what = take 1 what"
      by (intro zero) blast
    with that show ?thesis
      by (cases what) simp_all
  qed
  have empty: "truncate_bitmap what = []" if "what = []"
    using that by (simp add: truncate_bitmap_def)
  have ex1: "truncate_bitmap [1, 2, 0, 0] = [1, 2]"
    by (simp add: truncate_bitmap_def)
  have ex2: "truncate_bitmap [0, 0] = [0]"
    by (simp add: truncate_bitmap_def)
  from prefix nonzero zero nonempty empty ex1 ex2 show ?thesis
    by blast
qed

theorem truncate_bitmap_longest_prefix_witness:
  "(\<exists>b\<in>set [1, 0, 2, 0 :: byte]. b \<noteq> 0) \<and>
   truncate_bitmap [1, 0, 2, 0] = [1, 0, 2] \<and>
   last (truncate_bitmap [1, 0, 2, 0]) \<noteq> 0 \<and>
   set [0, 0, 0 :: byte] = {0} \<and>
   truncate_bitmap [0, 0, 0] = take 1 [0, 0, 0] \<and>
   1 \<le> length (truncate_bitmap [0, 0, 0])"
  using truncate_bitmap_longest_prefix [of "[1, 0, 2, 0]"]
    truncate_bitmap_longest_prefix [of "[0, 0, 0]"]
  by (simp add: truncate_bitmap_def)

section \<open>Equality, ordering and hashing\<close>

lemma bytes_gt_lexordp: "bytes_gt our their = ord_class.lexordp their our"
  by (induction our their rule: bytes_gt.induct) auto

lemma cmp_value:
  assumes "to_digestable V a (Some root) = Inr our"
    and "to_digestable V b (Some root) = Inr their"
  shows "cmp V a b =
     Inr (if our = their then 0 else if ord_class.lexordp their our then 1 else - 1)"
  using assms by (simp add: cmp_def bytes_gt_lexordp)

lemma cmp_Inr_digests:
  assumes "cmp V a b = Inr c"
  obtains our their where "to_digestable V a (Some root) = Inr our"
    and "to_digestable V b (Some root) = Inr their"
  using assms by (auto simp: cmp_def split: sum.splits)

lemma GenericRdata_digest:
  "to_digestable V (GenericRdata_init c t (VBytes d)) origin = Inr d"
  by (simp add: to_digestable_def Rdata_to_digestable_def to_wire_def GenericRdata_to_wire_def
      getattr_def GenericRdata_init_def Rdata_init_def)

lemma GenericRdata_init_sel:
  "cls (GenericRdata_init c t d) = GenericRdata_cls"
  "rdclass (GenericRdata_init c t d) = c"
  "rdtype (GenericRdata_init c t d) = t"
  "slots (GenericRdata_init c t d) = [''data'' \<mapsto> d]"
  by (simp_all add: GenericRdata_init_def Rdata_init_def)

lemma order_same:
  assumes "rdclass a = rdclass b" "rdtype a = rdtype b"
    and "to_digestable V a (Some root) = Inr our"
    and "to_digestable V b (Some root) = Inr their"
  shows "rdata_lt V a (Instance b) = Inr (Bool (ord_class.lexordp our their))"
    and "rdata_gt V a (Instance b) = Inr (Bool (ord_class.lexordp their our))"
    and "rdata_le V a (Instance b) = Inr (Bool (ord_class.lexordp our their \<or> our = their))"
    and "rdata_ge V a (Instance b) = Inr (Bool (ord_class.lexordp their our \<or> our = their))"
    and "rdata_eq V a (Instance b) = Inr (our = their)"
    and "rdata_ne V a (Instance b) = Inr (our \<noteq> their)"
proof -
  have lin: "ord_class.lexordp our their \<or> our = their \<or> ord_class.lexordp their our"
    by (rule lexordp_linear)
  have irr: "\<not> ord_class.lexordp our our" by (rule lexordp_irreflexive')
  have asym: "\<not> (ord_class.lexordp our their \<and> ord_class.lexordp their our)"
    using lexordp_antisym by blast
  note c = cmp_value[OF assms(3,4)]
  show "rdata_lt V a (Instance b) = Inr (Bool (ord_class.lexordp our their))"
    using lin irr asym assms(1,2) by (auto simp: rdata_lt_def rdata_order_def c)
  show "rdata_gt V a (Instance b) = Inr (Bool (ord_class.lexordp their our))"
    using lin irr asym assms(1,2) by (auto simp: rdata_gt_def rdata_order_def c)
  show "rdata_le V a (Instance b) = Inr (Bool (ord_class.lexordp our their \<or> our = their))"
    using lin irr asym assms(1,2) by (auto simp: rdata_le_def rdata_order_def c)
  show "rdata_ge V a (Instance b) = Inr (Bool (ord_class.lexordp their our \<or> our = their))"
    using lin irr asym assms(1,2) by (auto simp: rdata_ge_def rdata_order_def c)
  show "rdata_eq V a (Instance b) = Inr (our = their)"
    using assms(1,2) by (auto simp: rdata_eq_def c)
  show "rdata_ne V a (Instance b) = Inr (our \<noteq> their)"
    using assms(1,2) by (auto simp: rdata_ne_def c)
qed

lemma lt_True_iff:
  "rdata_lt V a (Instance b) = Inr (Bool True) \<longleftrightarrow>
     rdclass a = rdclass b \<and> rdtype a = rdtype b \<and>
     (\<exists>our their. to_digestable V a (Some root) = Inr our \<and>
        to_digestable V b (Some root) = Inr their \<and> ord_class.lexordp our their)"
proof
  assume L: "rdata_lt V a (Instance b) = Inr (Bool True)"
  then have same: "rdclass a = rdclass b" "rdtype a = rdtype b"
    by (auto simp: rdata_lt_def rdata_order_def split: if_splits)
  with L obtain c where "cmp V a b = Inr c"
    by (auto simp: rdata_lt_def rdata_order_def split: sum.splits)
  then obtain our their where d: "to_digestable V a (Some root) = Inr our"
    "to_digestable V b (Some root) = Inr their"
    by (rule cmp_Inr_digests)
  from order_same(1)[OF same d] L have "ord_class.lexordp our their" by simp
  with same d show "rdclass a = rdclass b \<and> rdtype a = rdtype b \<and>
     (\<exists>our their. to_digestable V a (Some root) = Inr our \<and>
        to_digestable V b (Some root) = Inr their \<and> ord_class.lexordp our their)"
    by blast
next
  assume "rdclass a = rdclass b \<and> rdtype a = rdtype b \<and>
     (\<exists>our their. to_digestable V a (Some root) = Inr our \<and>
        to_digestable V b (Some root) = Inr their \<and> ord_class.lexordp our their)"
  then obtain our their where same: "rdclass a = rdclass b" "rdtype a = rdtype b"
    and d: "to_digestable V a (Some root) = Inr our" "to_digestable V b (Some root) = Inr their"
    and l: "ord_class.lexordp our their" by blast
  from order_same(1)[OF same d] l show "rdata_lt V a (Instance b) = Inr (Bool True)" by simp
qed

lemma lt_trans:
  assumes "rdata_lt V a (Instance b) = Inr (Bool True)"
    and "rdata_lt V b (Instance c) = Inr (Bool True)"
  shows "rdata_lt V a (Instance c) = Inr (Bool True)"
proof -
  from assms(1) obtain x y where ab: "rdclass a = rdclass b" "rdtype a = rdtype b"
    "to_digestable V a (Some root) = Inr x" "to_digestable V b (Some root) = Inr y"
    "ord_class.lexordp x y"
    unfolding lt_True_iff by blast
  from assms(2) obtain y' z where bc: "rdclass b = rdclass c" "rdtype b = rdtype c"
    "to_digestable V b (Some root) = Inr y'" "to_digestable V c (Some root) = Inr z"
    "ord_class.lexordp y' z"
    unfolding lt_True_iff by blast
  from ab(4) bc(3) have "y' = y" by simp
  with ab(5) bc(5) have "ord_class.lexordp x z"
    using lexordp_trans by blast
  with ab bc show ?thesis
    unfolding lt_True_iff by auto
qed

lemma order_differ:
  assumes "rdclass a \<noteq> rdclass b \<or> rdtype a \<noteq> rdtype b"
  shows "rdata_eq V a (Instance b) = Inr False \<and> rdata_ne V a (Instance b) = Inr True \<and>
     rdata_lt V a (Instance b) = Inr NotImplemented \<and>
     rdata_le V a (Instance b) = Inr NotImplemented \<and>
     rdata_ge V a (Instance b) = Inr NotImplemented \<and>
     rdata_gt V a (Instance b) = Inr NotImplemented"
  using assms
  by (auto simp: rdata_eq_def rdata_ne_def rdata_lt_def rdata_le_def rdata_ge_def rdata_gt_def
      rdata_order_def)


text \<open>
  C1: two values of equal class and type whose canonical forms \<open>our\<close> and \<open>their\<close> exist
  are compared by the lexicographic order of these byte sequences: \<open>a < b\<close>, \<open>a == b\<close> and
  \<open>a > b\<close> are \<open>our < their\<close>, \<open>our = their\<close> and \<open>their < our\<close>, so exactly one of the
  three holds (and \<open><=\<close>, \<open>>=\<close>, \<open>!=\<close> agree with them). The order is strict and total:
  \<open><\<close> is irreflexive, asymmetric and transitive. For values of differing class or
  type \<open>==\<close> is false, \<open>!=\<close> is true, and each of the four ordering methods returns
  \<^verbatim>\<open>NotImplemented\<close>, whatever the serializations are.
\<close>

theorem rdata_ordering:
  "(rdclass a = rdclass b \<and> rdtype a = rdtype b \<and>
    to_digestable V a (Some root) = Inr our \<and> to_digestable V b (Some root) = Inr their \<longrightarrow>
      rdata_lt V a (Instance b) = Inr (Bool (ord_class.lexordp our their)) \<and>
      rdata_eq V a (Instance b) = Inr (our = their) \<and>
      rdata_gt V a (Instance b) = Inr (Bool (ord_class.lexordp their our)) \<and>
      rdata_le V a (Instance b) = Inr (Bool (ord_class.lexordp our their \<or> our = their)) \<and>
      rdata_ge V a (Instance b) = Inr (Bool (ord_class.lexordp their our \<or> our = their)) \<and>
      rdata_ne V a (Instance b) = Inr (our \<noteq> their) \<and>
      (rdata_lt V a (Instance b) = Inr (Bool True) \<and> rdata_eq V a (Instance b) = Inr False \<and>
         rdata_gt V a (Instance b) = Inr (Bool False)
       \<or> rdata_lt V a (Instance b) = Inr (Bool False) \<and> rdata_eq V a (Instance b) = Inr True \<and>
         rdata_gt V a (Instance b) = Inr (Bool False)
       \<or> rdata_lt V a (Instance b) = Inr (Bool False) \<and> rdata_eq V a (Instance b) = Inr False \<and>
         rdata_gt V a (Instance b) = Inr (Bool True))) \<and>
   rdata_lt V a (Instance a) \<noteq> Inr (Bool True) \<and>
   (rdata_lt V a (Instance b) = Inr (Bool True) \<longrightarrow>
      rdata_lt V b (Instance a) = Inr (Bool False) \<and>
      rdata_gt V b (Instance a) = Inr (Bool True)) \<and>
   (rdata_lt V a (Instance b) = Inr (Bool True) \<and> rdata_lt V b (Instance c) = Inr (Bool True) \<longrightarrow>
      rdata_lt V a (Instance c) = Inr (Bool True)) \<and>
   (rdclass a \<noteq> rdclass b \<or> rdtype a \<noteq> rdtype b \<longrightarrow>
      rdata_eq V a (Instance b) = Inr False \<and> rdata_ne V a (Instance b) = Inr True \<and>
      rdata_lt V a (Instance b) = Inr NotImplemented \<and>
      rdata_le V a (Instance b) = Inr NotImplemented \<and>
      rdata_ge V a (Instance b) = Inr NotImplemented \<and>
      rdata_gt V a (Instance b) = Inr NotImplemented)"
proof -
  have same: "rdata_lt V a (Instance b) = Inr (Bool (ord_class.lexordp our their)) \<and>
      rdata_eq V a (Instance b) = Inr (our = their) \<and>
      rdata_gt V a (Instance b) = Inr (Bool (ord_class.lexordp their our)) \<and>
      rdata_le V a (Instance b) = Inr (Bool (ord_class.lexordp our their \<or> our = their)) \<and>
      rdata_ge V a (Instance b) = Inr (Bool (ord_class.lexordp their our \<or> our = their)) \<and>
      rdata_ne V a (Instance b) = Inr (our \<noteq> their) \<and>
      (rdata_lt V a (Instance b) = Inr (Bool True) \<and> rdata_eq V a (Instance b) = Inr False \<and>
         rdata_gt V a (Instance b) = Inr (Bool False)
       \<or> rdata_lt V a (Instance b) = Inr (Bool False) \<and> rdata_eq V a (Instance b) = Inr True \<and>
         rdata_gt V a (Instance b) = Inr (Bool False)
       \<or> rdata_lt V a (Instance b) = Inr (Bool False) \<and> rdata_eq V a (Instance b) = Inr False \<and>
         rdata_gt V a (Instance b) = Inr (Bool True))"
    if h: "rdclass a = rdclass b \<and> rdtype a = rdtype b \<and>
      to_digestable V a (Some root) = Inr our \<and> to_digestable V b (Some root) = Inr their"
  proof -
    from h have s: "rdclass a = rdclass b" "rdtype a = rdtype b"
      and d: "to_digestable V a (Some root) = Inr our" "to_digestable V b (Some root) = Inr their"
      by simp_all
    note o = order_same[OF s d]
    have lin: "ord_class.lexordp our their \<or> our = their \<or> ord_class.lexordp their our"
      by (rule lexordp_linear)
    have irr: "\<not> ord_class.lexordp our our"
      by (rule lexordp_irreflexive')
    have asym: "\<not> (ord_class.lexordp our their \<and> ord_class.lexordp their our)"
      using lexordp_antisym by blast
    have one: "rdata_lt V a (Instance b) = Inr (Bool True) \<and> rdata_eq V a (Instance b) = Inr False \<and>
         rdata_gt V a (Instance b) = Inr (Bool False)
       \<or> rdata_lt V a (Instance b) = Inr (Bool False) \<and> rdata_eq V a (Instance b) = Inr True \<and>
         rdata_gt V a (Instance b) = Inr (Bool False)
       \<or> rdata_lt V a (Instance b) = Inr (Bool False) \<and> rdata_eq V a (Instance b) = Inr False \<and>
         rdata_gt V a (Instance b) = Inr (Bool True)"
      unfolding o using lin irr asym by auto
    from o one show ?thesis by blast
  qed
  have irrefl: "rdata_lt V a (Instance a) \<noteq> Inr (Bool True)"
    unfolding lt_True_iff using lexordp_irreflexive' by auto
  have asym: "rdata_lt V b (Instance a) = Inr (Bool False) \<and>
      rdata_gt V b (Instance a) = Inr (Bool True)"
    if "rdata_lt V a (Instance b) = Inr (Bool True)"
  proof -
    from that obtain x y where ab: "rdclass a = rdclass b" "rdtype a = rdtype b"
      "to_digestable V a (Some root) = Inr x" "to_digestable V b (Some root) = Inr y"
      "ord_class.lexordp x y"
      unfolding lt_True_iff by blast
    have ba: "rdclass b = rdclass a" "rdtype b = rdtype a"
      using ab(1,2) by simp_all
    have "\<not> ord_class.lexordp y x"
      using ab(5) lexordp_antisym by blast
    with order_same(1,2)[OF ba ab(4) ab(3)] ab(5) show ?thesis by simp
  qed
  have trans: "rdata_lt V a (Instance c) = Inr (Bool True)"
    if "rdata_lt V a (Instance b) = Inr (Bool True) \<and> rdata_lt V b (Instance c) = Inr (Bool True)"
    using that lt_trans by blast
  have differ: "rdata_eq V a (Instance b) = Inr False \<and> rdata_ne V a (Instance b) = Inr True \<and>
      rdata_lt V a (Instance b) = Inr NotImplemented \<and>
      rdata_le V a (Instance b) = Inr NotImplemented \<and>
      rdata_ge V a (Instance b) = Inr NotImplemented \<and>
      rdata_gt V a (Instance b) = Inr NotImplemented"
    if "rdclass a \<noteq> rdclass b \<or> rdtype a \<noteq> rdtype b"
    using that by (rule order_differ)
  show ?thesis
    using same irrefl asym trans differ by blast
qed

theorem rdata_ordering_witness:
  "rdata_lt no_variants (GenericRdata_init (VInt 1) (VInt 9999) (VBytes [1, 2]))
      (Instance (GenericRdata_init (VInt 1) (VInt 9999) (VBytes [1, 3]))) = Inr (Bool True) \<and>
   rdata_eq no_variants (GenericRdata_init (VInt 1) (VInt 9999) (VBytes [1, 2]))
      (Instance (GenericRdata_init (VInt 1) (VInt 9999) (VBytes [1, 3]))) = Inr False \<and>
   rdata_gt no_variants (GenericRdata_init (VInt 1) (VInt 9999) (VBytes [1, 2]))
      (Instance (GenericRdata_init (VInt 1) (VInt 9999) (VBytes [1, 3]))) = Inr (Bool False) \<and>
   rdata_gt no_variants (GenericRdata_init (VInt 1) (VInt 9999) (VBytes [1, 3]))
      (Instance (GenericRdata_init (VInt 1) (VInt 9999) (VBytes [1, 2]))) = Inr (Bool True) \<and>
   rdata_lt no_variants (GenericRdata_init (VInt 1) (VInt 9999) (VBytes [1, 2]))
      (Instance (GenericRdata_init (VInt 1) (VInt 9999) (VBytes [1, 2, 0]))) = Inr (Bool True) \<and>
   rdata_lt no_variants (GenericRdata_init (VInt 1) (VInt 9999) (VBytes [1, 2]))
      (Instance (GenericRdata_init (VInt 1) (VInt 1) (VBytes [1, 3]))) = Inr NotImplemented \<and>
   rdata_eq no_variants (GenericRdata_init (VInt 1) (VInt 9999) (VBytes [1, 2]))
      (Instance (GenericRdata_init (VInt 1) (VInt 1) (VBytes [1, 2]))) = Inr False"
  using rdata_ordering [of "GenericRdata_init (VInt 1) (VInt 9999) (VBytes [1, 2])"
      "GenericRdata_init (VInt 1) (VInt 9999) (VBytes [1, 3])" no_variants "[1, 2]" "[1, 3]"
      "GenericRdata_init (VInt 1) (VInt 9999) (VBytes [1, 2, 0])"]
    rdata_ordering [of "GenericRdata_init (VInt 1) (VInt 9999) (VBytes [1, 2])"
      "GenericRdata_init (VInt 1) (VInt 9999) (VBytes [1, 2, 0])" no_variants "[1, 2]" "[1, 2, 0]"
      "GenericRdata_init (VInt 1) (VInt 9999) (VBytes [1, 2, 0])"]
    rdata_ordering [of "GenericRdata_init (VInt 1) (VInt 9999) (VBytes [1, 2])"
      "GenericRdata_init (VInt 1) (VInt 1) (VBytes [1, 3])" no_variants "[1, 2]" "[1, 3]"
      "GenericRdata_init (VInt 1) (VInt 9999) (VBytes [1, 2, 0])"]
    rdata_ordering [of "GenericRdata_init (VInt 1) (VInt 9999) (VBytes [1, 2])"
      "GenericRdata_init (VInt 1) (VInt 1) (VBytes [1, 2])" no_variants "[1, 2]" "[1, 2]"
      "GenericRdata_init (VInt 1) (VInt 9999) (VBytes [1, 2, 0])"]
  by (simp add: GenericRdata_digest GenericRdata_init_sel)

text \<open>
  C7: the hash of a value is the hash of its canonical form relative to the root, and it
  fails exactly when that serialization fails. Two values that compare equal have the same
  canonical form, hence the same hash.
\<close>

theorem rdata_hash_consistent:
  "rdata_hash V hash_bytes a =
     (case to_digestable V a (Some root) of
        Inl e \<Rightarrow> Inl e
      | Inr digest \<Rightarrow> Inr (hash_bytes digest)) \<and>
   (rdata_eq V a (Instance b) = Inr True \<longrightarrow>
      (\<exists>digest. to_digestable V a (Some root) = Inr digest \<and>
         to_digestable V b (Some root) = Inr digest \<and>
         rdata_hash V hash_bytes a = Inr (hash_bytes digest) \<and>
         rdata_hash V hash_bytes b = Inr (hash_bytes digest)) \<and>
      rdata_hash V hash_bytes a = rdata_hash V hash_bytes b)"
proof -
  have def: "rdata_hash V hash_bytes a =
     (case to_digestable V a (Some root) of
        Inl e \<Rightarrow> Inl e
      | Inr digest \<Rightarrow> Inr (hash_bytes digest))"
    by (simp add: rdata_hash_def)
  have eq: "(\<exists>digest. to_digestable V a (Some root) = Inr digest \<and>
         to_digestable V b (Some root) = Inr digest \<and>
         rdata_hash V hash_bytes a = Inr (hash_bytes digest) \<and>
         rdata_hash V hash_bytes b = Inr (hash_bytes digest)) \<and>
      rdata_hash V hash_bytes a = rdata_hash V hash_bytes b"
    if E: "rdata_eq V a (Instance b) = Inr True"
  proof -
    from E have same: "rdclass a = rdclass b" "rdtype a = rdtype b"
      by (auto simp: rdata_eq_def split: if_splits)
    with E obtain c where "cmp V a b = Inr c"
      by (auto simp: rdata_eq_def split: sum.splits)
    then obtain our their where d: "to_digestable V a (Some root) = Inr our"
      "to_digestable V b (Some root) = Inr their"
      by (rule cmp_Inr_digests)
    from order_same(5)[OF same d] E have "our = their" by simp
    with d show ?thesis
      by (simp add: rdata_hash_def)
  qed
  from def eq show ?thesis by blast
qed

theorem rdata_hash_consistent_witness:
  "rdata_eq no_variants (GenericRdata_init (VInt 1) (VInt 9999) (VBytes [192, 0, 2, 1]))
      (Instance (GenericRdata_init (VInt 1) (VInt 9999) (VBytes [192, 0, 2, 1]))) = Inr True \<and>
   rdata_hash no_variants (\<lambda>d. int (length d))
      (GenericRdata_init (VInt 1) (VInt 9999) (VBytes [192, 0, 2, 1])) = Inr 4 \<and>
   rdata_hash no_variants (\<lambda>d. int (length d))
      (GenericRdata_init (VInt 1) (VInt 9999) (VBytes [192, 0, 2, 1])) =
   rdata_hash no_variants (\<lambda>d. int (length d))
      (GenericRdata_init (VInt 1) (VInt 9999) (VBytes [192, 0, 2, 1]))"
  using rdata_hash_consistent [of no_variants "\<lambda>d. int (length d)"
      "GenericRdata_init (VInt 1) (VInt 9999) (VBytes [192, 0, 2, 1])"
      "GenericRdata_init (VInt 1) (VInt 9999) (VBytes [192, 0, 2, 1])"]
  by (simp add: GenericRdata_digest GenericRdata_init_sel rdata_eq_def cmp_def)

text \<open>
  C10: compared with an object that is not an \<^verbatim>\<open>Rdata\<close>, \<open>==\<close> returns false and
  \<open>!=\<close> returns true. No error is raised and the serialization is not consulted: the
  result is the same for every variant table, also where \<open>to_digestable\<close> of the value
  raises.
\<close>

theorem rdata_eq_non_rdata:
  "rdata_eq V v (Value x) = Inr False \<and> rdata_ne V v (Value x) = Inr True \<and>
   (to_digestable V v (Some root) = Inl e \<longrightarrow>
      rdata_eq V v (Value x) = Inr False \<and> rdata_ne V v (Value x) = Inr True)"
  by (simp add: rdata_eq_def rdata_ne_def)

theorem rdata_eq_non_rdata_witness:
  "to_digestable no_variants (Rdata_init (VInt 1) (VInt 1)) (Some root) = Inl NotImplementedError \<and>
   rdata_eq no_variants (Rdata_init (VInt 1) (VInt 1)) (Value (VStr ''192.0.2.1'')) = Inr False \<and>
   rdata_ne no_variants (Rdata_init (VInt 1) (VInt 1)) (Value (VStr ''192.0.2.1'')) = Inr True"
  using rdata_eq_non_rdata [of no_variants "Rdata_init (VInt 1) (VInt 1)" "VStr ''192.0.2.1''"
      NotImplementedError]
  by (simp add: to_digestable_def Rdata_to_digestable_def to_wire_def Rdata_init_def)

text \<open>
  C9: assigning to an attribute of a value and deleting one raise \<^verbatim>\<open>TypeError\<close>, for
  every instance (of \<^verbatim>\<open>GenericRdata\<close> too, which inherits both methods), every
  attribute name and every value; neither returns a changed instance.
\<close>

theorem rdata_immutable:
  "rdata_setattr self name value = Inl TypeError \<and> rdata_delattr self name = Inl TypeError \<and>
   rdata_setattr (GenericRdata_init c t d) name value = Inl TypeError \<and>
   rdata_delattr (GenericRdata_init c t d) name = Inl TypeError"
  by (simp add: rdata_setattr_def rdata_delattr_def)

theorem rdata_immutable_witness:
  "rdata_setattr (GenericRdata_init (VInt 1) (VInt 9999) (VBytes [1])) ''data'' (VBytes [2])
     = Inl TypeError \<and>
   rdata_delattr (GenericRdata_init (VInt 1) (VInt 9999) (VBytes [1])) ''rdclass'' = Inl TypeError"
  using rdata_immutable [of "GenericRdata_init (VInt 1) (VInt 9999) (VBytes [1])" "''data''"
      "VBytes [2]" "VInt 1" "VInt 9999" "VBytes [1]"]
    rdata_immutable [of "GenericRdata_init (VInt 1) (VInt 9999) (VBytes [1])" "''rdclass''"
      "VBytes [2]" "VInt 1" "VInt 9999" "VBytes [1]"]
  by simp

section \<open>Properties of replace\<close>

lemma check_kwargs_None_iff:
  "check_kwargs ps kwargs = None \<longleftrightarrow>
     (\<forall>key\<in>fst ` set kwargs. key \<in> set ps \<and> key \<noteq> ''rdclass'' \<and> key \<noteq> ''rdtype'')"
  by (induction ps kwargs rule: check_kwargs.induct) auto

lemma check_kwargs_Some: "check_kwargs ps kwargs = Some e \<Longrightarrow> e = AttributeError"
  by (induction ps kwargs rule: check_kwargs.induct) (auto split: if_splits)

lemma replace_args_ok:
  "(\<forall>p\<in>set ps. \<exists>cur. getattr v p = Inr cur) \<Longrightarrow>
   replace_args v kwargs ps =
     Inr (map (\<lambda>p. case map_of kwargs p of Some x \<Rightarrow> x | None \<Rightarrow> projr (getattr v p)) ps)"
  by (induction ps) (auto split: option.splits)

lemma replace_self: "''self'' \<in> fst ` set kwargs \<Longrightarrow> replace V v kwargs = Inl TypeError"
  by (simp add: replace_def)

lemma replace_invalid:
  assumes "''self'' \<notin> fst ` set kwargs"
    and "\<exists>key\<in>fst ` set kwargs. key \<notin> set (parameters V (cls v)) \<or> key = ''rdclass'' \<or> key = ''rdtype''"
  shows "replace V v kwargs = Inl AttributeError"
proof -
  from assms(2) have "check_kwargs (parameters V (cls v)) kwargs \<noteq> None"
    unfolding check_kwargs_None_iff by blast
  then obtain e where e: "check_kwargs (parameters V (cls v)) kwargs = Some e" by blast
  then have "e = AttributeError" by (rule check_kwargs_Some)
  with e assms(1) show ?thesis by (simp add: replace_def)
qed

lemma replace_valid:
  assumes "''self'' \<notin> fst ` set kwargs"
    and "\<forall>key\<in>fst ` set kwargs. key \<in> set (parameters V (cls v)) \<and> key \<noteq> ''rdclass'' \<and> key \<noteq> ''rdtype''"
    and "\<forall>p\<in>set (parameters V (cls v)). \<exists>cur. getattr v p = Inr cur"
  shows "replace V v kwargs =
     cls_call V (cls v)
       (map (\<lambda>p. case map_of kwargs p of Some x \<Rightarrow> x | None \<Rightarrow> projr (getattr v p))
          (parameters V (cls v)))"
proof -
  from assms(2) have "check_kwargs (parameters V (cls v)) kwargs = None"
    unfolding check_kwargs_None_iff .
  with assms(1) show ?thesis
    by (simp add: replace_def replace_args_ok[OF assms(3)])
qed

lemma cls_call_Rdata_Inr: "cls_call V Rdata_cls args = Inr w \<Longrightarrow> \<exists>c t. args = [c, t] \<and> w = Rdata_init c t"
  by (induction V Rdata_cls args rule: cls_call.induct) auto

lemma cls_call_Generic_Inr:
  "cls_call V GenericRdata_cls args = Inr w \<Longrightarrow> \<exists>c t d. args = [c, t, d] \<and> w = GenericRdata_init c t d"
  by (induction V GenericRdata_cls args rule: cls_call.induct) auto

lemma constructor_stores_Rdata: "constructor_stores V Rdata_cls"
  unfolding constructor_stores_def
proof (intro allI impI)
  fix args w assume "cls_call V Rdata_cls args = Inr w"
  then obtain c t where "args = [c, t]" "w = Rdata_init c t"
    using cls_call_Rdata_Inr by blast
  then show "cls w = Rdata_cls \<and> length args = length (parameters V Rdata_cls) \<and>
        (\<forall>i<length args. getattr w (parameters V Rdata_cls ! i) = Inr (args ! i))"
    by (auto simp: parameters_def Rdata_init_def getattr_def less_Suc_eq)
qed

lemma constructor_stores_Generic: "constructor_stores V GenericRdata_cls"
  unfolding constructor_stores_def
proof (intro allI impI)
  fix args w assume "cls_call V GenericRdata_cls args = Inr w"
  then obtain c t d where "args = [c, t, d]" "w = GenericRdata_init c t d"
    using cls_call_Generic_Inr by blast
  then show "cls w = GenericRdata_cls \<and> length args = length (parameters V GenericRdata_cls) \<and>
        (\<forall>i<length args. getattr w (parameters V GenericRdata_cls ! i) = Inr (args ! i))"
    by (auto simp: parameters_def GenericRdata_init_def Rdata_init_def getattr_def less_Suc_eq)
qed

lemma replace_frame:
  assumes st: "constructor_stores V (cls v)"
    and dist: "distinct (parameters V (cls v))"
    and f: "f \<in> set (parameters V (cls v))" "f \<noteq> ''rdclass''" "f \<noteq> ''rdtype''" "f \<noteq> ''self''"
    and attrs: "\<forall>p\<in>set (parameters V (cls v)). \<exists>cur. getattr v p = Inr cur"
    and r: "replace V v [(f, x)] = Inr w"
  shows "cls w = cls v \<and> getattr w f = Inr x \<and>
     (\<forall>p\<in>set (parameters V (cls v)). p \<noteq> f \<longrightarrow> getattr w p = getattr v p)"
proof -
  let ?ps = "parameters V (cls v)"
  let ?args = "map (\<lambda>p. case map_of [(f, x)] p of Some x \<Rightarrow> x | None \<Rightarrow> projr (getattr v p)) ?ps"
  have "replace V v [(f, x)] = cls_call V (cls v) ?args"
    using f attrs by (intro replace_valid) auto
  with r have c: "cls_call V (cls v) ?args = Inr w" by simp
  with st have w: "cls w = cls v" "\<forall>i<length ?args. getattr w (?ps ! i) = Inr (?args ! i)"
    unfolding constructor_stores_def by blast+
  have get: "getattr w p = Inr (case map_of [(f, x)] p of Some x \<Rightarrow> x | None \<Rightarrow> projr (getattr v p))"
    if "p \<in> set ?ps" for p
  proof -
    from that obtain i where i: "i < length ?ps" "?ps ! i = p"
      by (auto simp: in_set_conv_nth)
    with w(2) show ?thesis by auto
  qed
  have "getattr w f = Inr x"
    using get[OF f(1)] by simp
  moreover have "getattr w p = getattr v p" if "p \<in> set ?ps" "p \<noteq> f" for p
  proof -
    from attrs that(1) obtain cur where "getattr v p = Inr cur" by blast
    with get[OF that(1)] that(2) show ?thesis by simp
  qed
  ultimately show ?thesis using w(1) by blast
qed

lemma replace_Generic_data:
  "replace V (GenericRdata_init c t d) [(''data'', x)] = Inr (GenericRdata_init c t x)"
  by (simp add: replace_def parameters_def GenericRdata_init_sel getattr_def)

lemma replace_Generic_nothing:
  "replace V (GenericRdata_init c t d) [] = Inr (GenericRdata_init c t d)"
  by (simp add: replace_def parameters_def GenericRdata_init_sel getattr_def)

text \<open>
  C8, as stated, fails for the name \<^verbatim>\<open>self\<close>: it is not a parameter of the
  constructor as \<^verbatim>\<open>inspect.signature\<close> reports them, yet \<^verbatim>\<open>replace(self=1)\<close>
  raises \<^verbatim>\<open>TypeError\<close> when the call binds its arguments, not the invalid-field
  error \<^verbatim>\<open>AttributeError\<close>.
\<close>

theorem replace_self_counterexample:
  "''self'' \<notin> set (parameters no_variants GenericRdata_cls) \<and>
   replace no_variants (GenericRdata_init (VInt 1) (VInt 9999) (VBytes [1, 2]))
     [(''self'', VInt 1)] = Inl TypeError \<and>
   (Inl TypeError :: error + rdata) \<noteq> Inl AttributeError"
  by (simp add: replace_def parameters_def)

text \<open>
  C8, amended: \<open>replace\<close> with one valid field name (other than \<^verbatim>\<open>self\<close>) returns
  what the constructor of the value's own class returns on the current values of its
  parameters with that one overridden. With a constructor that stores its arguments under
  the parameter names (those of this file do), the result is an instance of the same
  class whose field \<open>f\<close> is \<open>x\<close> and whose other fields are those of \<open>v\<close>; for a
  \<^verbatim>\<open>GenericRdata\<close> it is the value with \<open>data\<close> replaced. A call with the keyword
  \<^verbatim>\<open>self\<close> raises \<^verbatim>\<open>TypeError\<close>. Without that keyword, \<open>replace\<close> raises
  \<^verbatim>\<open>AttributeError\<close> when some given name is not a parameter of the constructor, and
  whenever \<open>rdclass\<close> or \<open>rdtype\<close> is among the names; so a call that names \<open>rdclass\<close>
  or \<open>rdtype\<close> always fails.
\<close>

theorem replace_spec:
  "replace V (GenericRdata_init c t d) [(''data'', x)] = Inr (GenericRdata_init c t x) \<and>
   replace V (GenericRdata_init c t d) [] = Inr (GenericRdata_init c t d) \<and>
   constructor_stores V Rdata_cls \<and> constructor_stores V GenericRdata_cls \<and>
   (constructor_stores V (cls v) \<and> distinct (parameters V (cls v)) \<and>
    f \<in> set (parameters V (cls v)) \<and> f \<noteq> ''rdclass'' \<and> f \<noteq> ''rdtype'' \<and> f \<noteq> ''self'' \<and>
    (\<forall>p\<in>set (parameters V (cls v)). \<exists>cur. getattr v p = Inr cur) \<and>
    replace V v [(f, x)] = Inr w \<longrightarrow>
      cls w = cls v \<and> getattr w f = Inr x \<and>
      (\<forall>p\<in>set (parameters V (cls v)). p \<noteq> f \<longrightarrow> getattr w p = getattr v p)) \<and>
   (''self'' \<notin> fst ` set kwargs \<and>
    (\<forall>key\<in>fst ` set kwargs.
        key \<in> set (parameters V (cls v)) \<and> key \<noteq> ''rdclass'' \<and> key \<noteq> ''rdtype'') \<and>
    (\<forall>p\<in>set (parameters V (cls v)). \<exists>cur. getattr v p = Inr cur) \<longrightarrow>
      replace V v kwargs =
        cls_call V (cls v)
          (map (\<lambda>p. case map_of kwargs p of Some x \<Rightarrow> x | None \<Rightarrow> projr (getattr v p))
             (parameters V (cls v)))) \<and>
   (''self'' \<in> fst ` set kwargs \<longrightarrow> replace V v kwargs = Inl TypeError) \<and>
   (''self'' \<notin> fst ` set kwargs \<and>
    (\<exists>key\<in>fst ` set kwargs. key \<notin> set (parameters V (cls v))) \<longrightarrow>
      replace V v kwargs = Inl AttributeError) \<and>
   (''self'' \<notin> fst ` set kwargs \<and>
    (''rdclass'' \<in> fst ` set kwargs \<or> ''rdtype'' \<in> fst ` set kwargs) \<longrightarrow>
      replace V v kwargs = Inl AttributeError) \<and>
   (''rdclass'' \<in> fst ` set kwargs \<or> ''rdtype'' \<in> fst ` set kwargs \<longrightarrow>
      replace V v kwargs = Inl AttributeError \<or> replace V v kwargs = Inl TypeError)"
proof -
  have frame: "cls w = cls v \<and> getattr w f = Inr x \<and>
      (\<forall>p\<in>set (parameters V (cls v)). p \<noteq> f \<longrightarrow> getattr w p = getattr v p)"
    if "constructor_stores V (cls v) \<and> distinct (parameters V (cls v)) \<and>
      f \<in> set (parameters V (cls v)) \<and> f \<noteq> ''rdclass'' \<and> f \<noteq> ''rdtype'' \<and> f \<noteq> ''self'' \<and>
      (\<forall>p\<in>set (parameters V (cls v)). \<exists>cur. getattr v p = Inr cur) \<and>
      replace V v [(f, x)] = Inr w"
    using that by (intro replace_frame) simp_all
  have valid: "replace V v kwargs =
        cls_call V (cls v)
          (map (\<lambda>p. case map_of kwargs p of Some x \<Rightarrow> x | None \<Rightarrow> projr (getattr v p))
             (parameters V (cls v)))"
    if "''self'' \<notin> fst ` set kwargs \<and>
      (\<forall>key\<in>fst ` set kwargs.
        key \<in> set (parameters V (cls v)) \<and> key \<noteq> ''rdclass'' \<and> key \<noteq> ''rdtype'') \<and>
      (\<forall>p\<in>set (parameters V (cls v)). \<exists>cur. getattr v p = Inr cur)"
    using that by (intro replace_valid) simp_all
  have self: "replace V v kwargs = Inl TypeError" if "''self'' \<in> fst ` set kwargs"
    using that by (rule replace_self)
  have unknown: "replace V v kwargs = Inl AttributeError"
    if "''self'' \<notin> fst ` set kwargs \<and>
      (\<exists>key\<in>fst ` set kwargs. key \<notin> set (parameters V (cls v)))"
    using that by (intro replace_invalid) blast+
  have identity: "replace V v kwargs = Inl AttributeError"
    if "''self'' \<notin> fst ` set kwargs \<and>
      (''rdclass'' \<in> fst ` set kwargs \<or> ''rdtype'' \<in> fst ` set kwargs)"
    using that by (intro replace_invalid) blast+
  have fails: "replace V v kwargs = Inl AttributeError \<or> replace V v kwargs = Inl TypeError"
    if "''rdclass'' \<in> fst ` set kwargs \<or> ''rdtype'' \<in> fst ` set kwargs"
    using that self identity by blast
  show ?thesis
    using replace_Generic_data[of V c t d x] replace_Generic_nothing[of V c t d]
      constructor_stores_Rdata[of V] constructor_stores_Generic[of V]
      frame valid self unknown identity fails
    by blast
qed

theorem replace_spec_witness:
  "replace no_variants (GenericRdata_init (VInt 1) (VInt 9999) (VBytes [1, 2]))
      [(''data'', VBytes [3])] = Inr (GenericRdata_init (VInt 1) (VInt 9999) (VBytes [3])) \<and>
   getattr (GenericRdata_init (VInt 1) (VInt 9999) (VBytes [3])) ''data'' = Inr (VBytes [3]) \<and>
   getattr (GenericRdata_init (VInt 1) (VInt 9999) (VBytes [3])) ''rdtype'' = Inr (VInt 9999) \<and>
   replace no_variants (GenericRdata_init (VInt 1) (VInt 9999) (VBytes [1, 2]))
      [(''data'', VBytes [3]), (''address'', VStr ''192.0.2.1'')] = Inl AttributeError \<and>
   replace no_variants (GenericRdata_init (VInt 1) (VInt 9999) (VBytes [1, 2]))
      [(''rdclass'', VInt 3)] = Inl AttributeError \<and>
   replace no_variants (GenericRdata_init (VInt 1) (VInt 9999) (VBytes [1, 2]))
      [(''data'', VBytes [3]), (''rdtype'', VInt 1)] = Inl AttributeError \<and>
   replace no_variants (GenericRdata_init (VInt 1) (VInt 9999) (VBytes [1, 2]))
      [(''rdtype'', VInt 1), (''self'', VInt 1)] = Inl TypeError"
  using replace_spec [of no_variants "VInt 1" "VInt 9999" "VBytes [1, 2]" "VBytes [3]"
      "GenericRdata_init (VInt 1) (VInt 9999) (VBytes [1, 2])" "''data''"
      "GenericRdata_init (VInt 1) (VInt 9999) (VBytes [3])"
      "[(''data'', VBytes [3]), (''address'', VStr ''192.0.2.1'')]"]
    replace_spec [of no_variants "VInt 1" "VInt 9999" "VBytes [1, 2]" "VBytes [3]"
      "GenericRdata_init (VInt 1) (VInt 9999) (VBytes [1, 2])" "''data''"
      "GenericRdata_init (VInt 1) (VInt 9999) (VBytes [3])"
      "[(''rdclass'', VInt 3)]"]
    replace_spec [of no_variants "VInt 1" "VInt 9999" "VBytes [1, 2]" "VBytes [3]"
      "GenericRdata_init (VInt 1) (VInt 9999) (VBytes [1, 2])" "''data''"
      "GenericRdata_init (VInt 1) (VInt 9999) (VBytes [3])"
      "[(''data'', VBytes [3]), (''rdtype'', VInt 1)]"]
    replace_spec [of no_variants "VInt 1" "VInt 9999" "VBytes [1, 2]" "VBytes [3]"
      "GenericRdata_init (VInt 1) (VInt 9999) (VBytes [1, 2])" "''data''"
      "GenericRdata_init (VInt 1) (VInt 9999) (VBytes [3])"
      "[(''rdtype'', VInt 1), (''self'', VInt 1)]"]
  by (simp add: GenericRdata_init_sel parameters_def getattr_def)

section \<open>Properties of the generic variant\<close>

lemma unhexlify_error: "unhexlify s = Inl e \<Longrightarrow> e = BinasciiError"
proof (induction s arbitrary: e rule: induct_list012)
  case 1
  then show ?case by simp
next
  case (2 x)
  then show ?case by simp
next
  case (3 x y zs)
  show ?case
  proof (cases "unhexlify zs")
    case (Inl e')
    with "3.IH"(1) have "e' = BinasciiError" by blast
    with Inl "3.prems" show ?thesis
      by (simp split: option.splits)
  next
    case (Inr data)
    with "3.prems" show ?thesis
      by (simp split: option.splits)
  qed
qed

lemma well_formed_hex_Cons2:
  "well_formed_hex (x # y # zs) \<longleftrightarrow>
     hex_digit x \<noteq> None \<and> hex_digit y \<noteq> None \<and> well_formed_hex zs"
  by (auto simp: well_formed_hex_def)

lemma unhexlify_well_formed:
  "well_formed_hex s \<Longrightarrow> \<exists>data. unhexlify s = Inr data \<and> length data = length s div 2"
proof (induction s rule: induct_list012)
  case 1
  then show ?case by simp
next
  case (2 x)
  then show ?case by (simp add: well_formed_hex_def)
next
  case (3 x y zs)
  from "3.prems" obtain h l where hl: "hex_digit x = Some h" "hex_digit y = Some l"
    and wf: "well_formed_hex zs"
    unfolding well_formed_hex_Cons2 by blast
  from "3.IH"(1)[OF wf] obtain data where "unhexlify zs = Inr data" "length data = length zs div 2"
    by blast
  with hl show ?case by simp
qed

lemma unhexlify_Inr_well_formed: "unhexlify s = Inr data \<Longrightarrow> well_formed_hex s"
proof (induction s arbitrary: data rule: induct_list012)
  case 1
  then show ?case by (simp add: well_formed_hex_def)
next
  case (2 x)
  then show ?case by simp
next
  case (3 x y zs)
  from "3.prems" obtain h l d where "hex_digit x = Some h" "hex_digit y = Some l"
    "unhexlify zs = Inr d"
    by (auto split: option.splits sum.splits)
  with "3.IH"(1) show ?case
    unfolding well_formed_hex_Cons2 by simp
qed

lemma unhexlify_malformed: "\<not> well_formed_hex s \<Longrightarrow> unhexlify s = Inl BinasciiError"
proof -
  assume m: "\<not> well_formed_hex s"
  show ?thesis
  proof (cases "unhexlify s")
    case (Inl e)
    then show ?thesis using unhexlify_error by blast
  next
    case (Inr data)
    with m show ?thesis using unhexlify_Inr_well_formed by blast
  qed
qed

lemma tok_get_int_eq:
  "tok_get tok = (token, tok') \<Longrightarrow>
   tok_get_int tok =
     (if is_integer_token token then Inr (int_of_digits (tvalue token), tok') else Inl SyntaxError)"
  by (simp add: tok_get_int_def is_integer_token_def)


lemma GenericRdata_from_text_cases:
  assumes g1: "tok_get tok = (t1, tok1)"
    and g2: "tok_get tok1 = (t2, tok2)"
    and ch: "read_chunks tok2 [] = (chunks, tok3)"
  shows "GenericRdata_from_text c t tok origin relativize relativize_to =
     (if \<not> (is_identifier t1 \<and> tvalue t1 = generic_marker) then Inl SyntaxError
      else if \<not> is_integer_token t2 then Inl SyntaxError
      else if \<not> well_formed_hex (concat chunks) then Inl BinasciiError
      else if int (length (concat chunks) div 2) \<noteq> int_of_digits (tvalue t2) then Inl SyntaxError
      else Inr (GenericRdata_init (VInt c) (VInt t) (VBytes (projr (unhexlify (concat chunks))))))"
proof (cases "is_identifier t1 \<and> tvalue t1 = generic_marker")
  case False
  then show ?thesis
    by (auto simp: GenericRdata_from_text_def g1)
next
  case marker: True
  show ?thesis
  proof (cases "is_integer_token t2")
    case False
    with marker show ?thesis
      by (simp add: GenericRdata_from_text_def g1 tok_get_int_eq[OF g2])
  next
    case int: True
    show ?thesis
    proof (cases "well_formed_hex (concat chunks)")
      case False
      then have "unhexlify (concat chunks) = Inl BinasciiError"
        by (rule unhexlify_malformed)
      with marker int False show ?thesis
        by (simp add: GenericRdata_from_text_def g1 tok_get_int_eq[OF g2] ch)
    next
      case True
      from unhexlify_well_formed[OF this] obtain data where
        d: "unhexlify (concat chunks) = Inr data" "length data = length (concat chunks) div 2"
        by blast
      with marker int True show ?thesis
        by (simp add: GenericRdata_from_text_def g1 tok_get_int_eq[OF g2] ch)
    qed
  qed
qed

lemma read_chunks_stop:
  "is_eol_or_eof (fst (tok_get tok)) \<Longrightarrow> read_chunks tok chunks = (chunks, snd (tok_get tok))"
  by (simp add: read_chunks.simps[of tok])

lemma read_chunks_step:
  "\<not> is_eol_or_eof (fst (tok_get tok)) \<Longrightarrow>
   read_chunks tok chunks = read_chunks (snd (tok_get tok)) (chunks @ [tvalue (fst (tok_get tok))])"
  by (simp add: read_chunks.simps[of tok])

lemmas tokenizer_eval =
  read_chunks_stop read_chunks_step tok_get_def tok_unget_def tokenizer_of_def ident_def
  is_identifier_def is_eol_or_eof_def eof_token_def is_integer_token_def is_digit_def
  int_of_digits_def digit_value_def generic_marker_def hex_digit_def well_formed_hex_def

text \<open>
  C5, as stated, fails for malformed hex: \<^verbatim>\<open>binascii.unhexlify\<close> raises its own
  \<^verbatim>\<open>binascii.Error\<close>, which \<^verbatim>\<open>from_text\<close> does not catch, so the caller sees
  that error and not a syntax error. Here the hex text is \<^verbatim>\<open>zz\<close>, and \<^verbatim>\<open>abc\<close>
  with its odd length.
\<close>

theorem generic_from_text_hex_counterexample:
  "\<not> well_formed_hex ''zz'' \<and>
   GenericRdata_from_text 1 9999
     (tokenizer_of [ident generic_marker, ident ''1'', ident ''zz'']) None True None
     = Inl BinasciiError \<and>
   \<not> well_formed_hex ''abc'' \<and>
   GenericRdata_from_text 1 9999
     (tokenizer_of [ident generic_marker, ident ''1'', ident ''abc'']) None True None
     = Inl BinasciiError \<and>
   (Inl BinasciiError :: error + rdata) \<noteq> Inl SyntaxError"
  by (simp add: GenericRdata_from_text_def tok_get_int_def tokenizer_eval)

text \<open>
  C5, amended: with \<open>t1\<close> the first token, \<open>t2\<close> the second and \<open>chunks\<close> the values of
  the tokens after it up to the end of the line, \<^verbatim>\<open>GenericRdata.from_text\<close> raises a
  syntax error when \<open>t1\<close> is not the identifier \<^verbatim>\<open>\#\<close>, when \<open>t2\<close> is not an integer,
  and when the decoded length differs from the declared one; malformed hex raises the hex
  decoder's \<^verbatim>\<open>binascii.Error\<close>. A value is returned only when none of the four
  happens, and then it holds the decoded bytes: no failure is recovered from.
\<close>

theorem generic_from_text_errors:
  "tok_get tok = (t1, tok1) \<and> tok_get tok1 = (t2, tok2) \<and>
   read_chunks tok2 [] = (chunks, tok3) \<longrightarrow>
     (\<not> (is_identifier t1 \<and> tvalue t1 = generic_marker) \<longrightarrow>
        GenericRdata_from_text c t tok origin relativize relativize_to = Inl SyntaxError) \<and>
     (is_identifier t1 \<and> tvalue t1 = generic_marker \<and> \<not> is_integer_token t2 \<longrightarrow>
        GenericRdata_from_text c t tok origin relativize relativize_to = Inl SyntaxError) \<and>
     (is_identifier t1 \<and> tvalue t1 = generic_marker \<and> is_integer_token t2 \<and>
      \<not> well_formed_hex (concat chunks) \<longrightarrow>
        GenericRdata_from_text c t tok origin relativize relativize_to = Inl BinasciiError) \<and>
     (is_identifier t1 \<and> tvalue t1 = generic_marker \<and> is_integer_token t2 \<and>
      well_formed_hex (concat chunks) \<and>
      int (length (concat chunks) div 2) \<noteq> int_of_digits (tvalue t2) \<longrightarrow>
        GenericRdata_from_text c t tok origin relativize relativize_to = Inl SyntaxError) \<and>
     (is_identifier t1 \<and> tvalue t1 = generic_marker \<and> is_integer_token t2 \<and>
      well_formed_hex (concat chunks) \<and>
      int (length (concat chunks) div 2) = int_of_digits (tvalue t2) \<longrightarrow>
        (\<exists>data. unhexlify (concat chunks) = Inr data \<and>
           int (length data) = int_of_digits (tvalue t2) \<and>
           GenericRdata_from_text c t tok origin relativize relativize_to =
             Inr (GenericRdata_init (VInt c) (VInt t) (VBytes data)))) \<and>
     ((\<exists>r. GenericRdata_from_text c t tok origin relativize relativize_to = Inr r) \<longrightarrow>
        is_identifier t1 \<and> tvalue t1 = generic_marker \<and> is_integer_token t2 \<and>
        well_formed_hex (concat chunks) \<and>
        int (length (concat chunks) div 2) = int_of_digits (tvalue t2))"
proof (intro impI)
  assume h: "tok_get tok = (t1, tok1) \<and> tok_get tok1 = (t2, tok2) \<and>
    read_chunks tok2 [] = (chunks, tok3)"
  then have g1: "tok_get tok = (t1, tok1)" and g2: "tok_get tok1 = (t2, tok2)"
    and ch: "read_chunks tok2 [] = (chunks, tok3)"
    by simp_all
  note c = GenericRdata_from_text_cases[OF g1 g2 ch, of c t origin relativize relativize_to]
  have good: "\<exists>data. unhexlify (concat chunks) = Inr data \<and>
           int (length data) = int_of_digits (tvalue t2) \<and>
           GenericRdata_from_text c t tok origin relativize relativize_to =
             Inr (GenericRdata_init (VInt c) (VInt t) (VBytes data))"
    if ok: "is_identifier t1 \<and> tvalue t1 = generic_marker \<and> is_integer_token t2 \<and>
      well_formed_hex (concat chunks) \<and>
      int (length (concat chunks) div 2) = int_of_digits (tvalue t2)"
  proof -
    from ok have "well_formed_hex (concat chunks)" by simp
    from unhexlify_well_formed[OF this] obtain data where
      d: "unhexlify (concat chunks) = Inr data" "length data = length (concat chunks) div 2"
      by blast
    from ok d have "GenericRdata_from_text c t tok origin relativize relativize_to =
        Inr (GenericRdata_init (VInt c) (VInt t) (VBytes data))"
      unfolding c by simp
    with d ok show ?thesis by simp
  qed
  have only: "is_identifier t1 \<and> tvalue t1 = generic_marker \<and> is_integer_token t2 \<and>
        well_formed_hex (concat chunks) \<and>
        int (length (concat chunks) div 2) = int_of_digits (tvalue t2)"
    if "\<exists>r. GenericRdata_from_text c t tok origin relativize relativize_to = Inr r"
    using that unfolding c by (auto split: if_splits)
  show "(\<not> (is_identifier t1 \<and> tvalue t1 = generic_marker) \<longrightarrow>
        GenericRdata_from_text c t tok origin relativize relativize_to = Inl SyntaxError) \<and>
     (is_identifier t1 \<and> tvalue t1 = generic_marker \<and> \<not> is_integer_token t2 \<longrightarrow>
        GenericRdata_from_text c t tok origin relativize relativize_to = Inl SyntaxError) \<and>
     (is_identifier t1 \<and> tvalue t1 = generic_marker \<and> is_integer_token t2 \<and>
      \<not> well_formed_hex (concat chunks) \<longrightarrow>
        GenericRdata_from_text c t tok origin relativize relativize_to = Inl BinasciiError) \<and>
     (is_identifier t1 \<and> tvalue t1 = generic_marker \<and> is_integer_token t2 \<and>
      well_formed_hex (concat chunks) \<and>
      int (length (concat chunks) div 2) \<noteq> int_of_digits (tvalue t2) \<longrightarrow>
        GenericRdata_from_text c t tok origin relativize relativize_to = Inl SyntaxError) \<and>
     (is_identifier t1 \<and> tvalue t1 = generic_marker \<and> is_integer_token t2 \<and>
      well_formed_hex (concat chunks) \<and>
      int (length (concat chunks) div 2) = int_of_digits (tvalue t2) \<longrightarrow>
        (\<exists>data. unhexlify (concat chunks) = Inr data \<and>
           int (length data) = int_of_digits (tvalue t2) \<and>
           GenericRdata_from_text c t tok origin relativize relativize_to =
             Inr (GenericRdata_init (VInt c) (VInt t) (VBytes data)))) \<and>
     ((\<exists>r. GenericRdata_from_text c t tok origin relativize relativize_to = Inr r) \<longrightarrow>
        is_identifier t1 \<and> tvalue t1 = generic_marker \<and> is_integer_token t2 \<and>
        well_formed_hex (concat chunks) \<and>
        int (length (concat chunks) div 2) = int_of_digits (tvalue t2))"
    apply (intro conjI impI)
    subgoal unfolding c by simp
    subgoal unfolding c by simp
    subgoal unfolding c by simp
    subgoal unfolding c by simp
    subgoal using good by blast
    subgoal using only by blast
    subgoal using only by blast
    subgoal using only by blast
    subgoal using only by blast
    subgoal using only by blast
    done
qed

theorem generic_from_text_errors_witness:
  "GenericRdata_from_text 1 9999
     (tokenizer_of [ident ''10'', ident ''4'', ident ''c0000201'']) None True None
     = Inl SyntaxError \<and>
   GenericRdata_from_text 1 9999
     (tokenizer_of [ident generic_marker, ident ''four'', ident ''c0000201'']) None True None
     = Inl SyntaxError \<and>
   GenericRdata_from_text 1 9999
     (tokenizer_of [ident generic_marker, ident ''4'', ident ''c00002'']) None True None
     = Inl SyntaxError \<and>
   GenericRdata_from_text 1 9999
     (tokenizer_of [ident generic_marker, ident ''4'', ident ''c000'', ident ''020'']) None True None
     = Inl BinasciiError \<and>
   GenericRdata_from_text 1 9999
     (tokenizer_of [ident generic_marker, ident ''4'', ident ''c000'', ident ''0201'',
        \<lparr>ttype = EOL, tvalue = []\<rparr>]) None True None
     = Inr (GenericRdata_init (VInt 1) (VInt 9999) (VBytes [192, 0, 2, 1]))"
  using generic_from_text_errors [of "tokenizer_of [ident ''10'', ident ''4'', ident ''c0000201'']"
      "ident ''10''" "tokenizer_of [ident ''4'', ident ''c0000201'']"
      "ident ''4''" "tokenizer_of [ident ''c0000201'']" "[''c0000201'']" "tokenizer_of []"
      1 9999 None True None]
    generic_from_text_errors [of
      "tokenizer_of [ident generic_marker, ident ''four'', ident ''c0000201'']"
      "ident generic_marker" "tokenizer_of [ident ''four'', ident ''c0000201'']"
      "ident ''four''" "tokenizer_of [ident ''c0000201'']" "[''c0000201'']" "tokenizer_of []"
      1 9999 None True None]
    generic_from_text_errors [of
      "tokenizer_of [ident generic_marker, ident ''4'', ident ''c00002'']"
      "ident generic_marker" "tokenizer_of [ident ''4'', ident ''c00002'']"
      "ident ''4''" "tokenizer_of [ident ''c00002'']" "[''c00002'']" "tokenizer_of []"
      1 9999 None True None]
    generic_from_text_errors [of
      "tokenizer_of [ident generic_marker, ident ''4'', ident ''c000'', ident ''020'']"
      "ident generic_marker" "tokenizer_of [ident ''4'', ident ''c000'', ident ''020'']"
      "ident ''4''" "tokenizer_of [ident ''c000'', ident ''020'']" "[''c000'', ''020'']"
      "tokenizer_of []" 1 9999 None True None]
    generic_from_text_errors [of
      "tokenizer_of [ident generic_marker, ident ''4'', ident ''c000'', ident ''0201'',
        \<lparr>ttype = EOL, tvalue = []\<rparr>]"
      "ident generic_marker"
      "tokenizer_of [ident ''4'', ident ''c000'', ident ''0201'', \<lparr>ttype = EOL, tvalue = []\<rparr>]"
      "ident ''4''" "tokenizer_of [ident ''c000'', ident ''0201'', \<lparr>ttype = EOL, tvalue = []\<rparr>]"
      "[''c000'', ''0201'']" "tokenizer_of []" 1 9999 None True None]
  by (simp add: GenericRdata_from_text_def tok_get_int_def tokenizer_eval)

section \<open>Properties of the registry\<close>

lemma get_rdata_class_hit:
  "rdata_classes st (c, t) = Some k \<Longrightarrow> get_rdata_class E st c t = (Inr k, st)"
  by (simp add: get_rdata_class_def)

lemma get_rdata_class_any_hit:
  "rdata_classes st (c, t) = None \<Longrightarrow> rdata_classes st (rdatatype_ANY, t) = Some k \<Longrightarrow>
   get_rdata_class E st c t = (Inr k, st)"
  by (simp add: get_rdata_class_def)

lemma get_rdata_class_specific:
  "rdata_classes st (c, t) = None \<Longrightarrow> rdata_classes st (rdatatype_ANY, t) = None \<Longrightarrow>
   rdataclass_to_text E c = Inr ctext \<Longrightarrow>
   rdatatype_to_text E (rdatatype_names st) t = Inr ttext \<Longrightarrow>
   load_class E ctext (replace_dash ttext) = Inr k \<Longrightarrow>
   get_rdata_class E st c t = (Inr k, cache_put st (c, t) k)"
  by (simp add: get_rdata_class_def)

lemma get_rdata_class_any_load:
  "rdata_classes st (c, t) = None \<Longrightarrow> rdata_classes st (rdatatype_ANY, t) = None \<Longrightarrow>
   rdataclass_to_text E c = Inr ctext \<Longrightarrow>
   rdatatype_to_text E (rdatatype_names st) t = Inr ttext \<Longrightarrow>
   load_class E ctext (replace_dash ttext) = Inl ImportError \<Longrightarrow>
   load_class E ''ANY'' (replace_dash ttext) = Inr k \<Longrightarrow>
   get_rdata_class E st c t =
     (Inr k, cache_put (cache_put st (rdataclass_ANY, t) k) (c, t) k)"
  by (simp add: get_rdata_class_def)

lemma get_rdata_class_generic:
  "rdata_classes st (c, t) = None \<Longrightarrow> rdata_classes st (rdatatype_ANY, t) = None \<Longrightarrow>
   rdataclass_to_text E c = Inr ctext \<Longrightarrow>
   rdatatype_to_text E (rdatatype_names st) t = Inr ttext \<Longrightarrow>
   load_class E ctext (replace_dash ttext) = Inl ImportError \<Longrightarrow>
   load_class E ''ANY'' (replace_dash ttext) = Inl ImportError \<Longrightarrow>
   get_rdata_class E st c t = (Inr GenericRdata_cls, cache_put st (c, t) GenericRdata_cls)"
  by (simp add: get_rdata_class_def)

lemma cache_put_lookup: "rdata_classes (cache_put st key k) key = Some k"
  by (simp add: cache_put_def)

lemma get_rdata_class_error_state:
  "get_rdata_class E st c t = (Inl e, st1) \<Longrightarrow> st1 = st"
  by (auto simp: get_rdata_class_def split: option.splits sum.splits if_splits)

lemma get_rdata_class_stable:
  assumes "get_rdata_class E st c t = (Inr k, st1)"
  shows "get_rdata_class E' st1 c t = (Inr k, st1)"
proof (cases "rdata_classes st (c, t)")
  case (Some k')
  with assms show ?thesis by (simp add: get_rdata_class_def)
next
  case None
  show ?thesis
  proof (cases "rdata_classes st (rdatatype_ANY, t)")
    case (Some k')
    with None assms show ?thesis by (simp add: get_rdata_class_def)
  next
    case miss: None
    from assms None miss have "rdata_classes st1 (c, t) = Some k"
      by (auto simp: get_rdata_class_def cache_put_def split: sum.splits if_splits)
    then show ?thesis by (rule get_rdata_class_hit)
  qed
qed

text \<open>
  C2, as stated, fails at step 2: a hit under (ANY, type) is returned, but the dictionary
  is not written, so the key (class, type) stays without an entry. Here the dictionary
  holds only (ANY, 1) and the key looked up is (IN, 1).
\<close>

theorem get_rdata_class_any_hit_counterexample:
  "rdata_classes (cache_put empty_state (rdatatype_ANY, 1) (Variant_cls ''A'')) (rdataclass_IN, 1)
     = None \<and>
   get_rdata_class bare_environment
       (cache_put empty_state (rdatatype_ANY, 1) (Variant_cls ''A'')) rdataclass_IN 1
     = (Inr (Variant_cls ''A''), cache_put empty_state (rdatatype_ANY, 1) (Variant_cls ''A'')) \<and>
   rdata_classes
       (snd (get_rdata_class bare_environment
               (cache_put empty_state (rdatatype_ANY, 1) (Variant_cls ''A'')) rdataclass_IN 1))
       (rdataclass_IN, 1)
     = None"
  by (simp add: get_rdata_class_def cache_put_def empty_state_def rdatatype_ANY_def
      rdataclass_IN_def)

text \<open>
  C2, amended: \<open>get_rdata_class\<close> resolves a key in this order. (1) An entry under
  (class, type) is returned, the dictionary unchanged. (2) Else an entry under (ANY, type)
  is returned, the dictionary again unchanged. (3) Else, the texts of class and type being
  \<open>ctext\<close> and \<open>ttext\<close>, a class loaded from the module of the specific class is stored
  under (class, type) and returned. (4) Else, that import having raised
  \<^verbatim>\<open>ImportError\<close>, a class loaded from the module under ANY is stored under both
  (ANY, type) and (class, type) and returned. (5) Else, that import having raised
  \<^verbatim>\<open>ImportError\<close> too, the generic class is stored under (class, type) and returned,
  and a later lookup of the key returns the generic class from the dictionary whatever the
  modules then are. In every case a lookup that returned a class returns the same class
  when repeated, without changing the state.
\<close>

theorem get_rdata_class_resolution:
  "(rdata_classes st (c, t) = Some k \<longrightarrow> get_rdata_class E st c t = (Inr k, st)) \<and>
   (rdata_classes st (c, t) = None \<and> rdata_classes st (rdatatype_ANY, t) = Some k \<longrightarrow>
      get_rdata_class E st c t = (Inr k, st)) \<and>
   (rdata_classes st (c, t) = None \<and> rdata_classes st (rdatatype_ANY, t) = None \<and>
    rdataclass_to_text E c = Inr ctext \<and>
    rdatatype_to_text E (rdatatype_names st) t = Inr ttext \<and>
    load_class E ctext (replace_dash ttext) = Inr k \<longrightarrow>
      get_rdata_class E st c t = (Inr k, cache_put st (c, t) k) \<and>
      rdata_classes (cache_put st (c, t) k) (c, t) = Some k) \<and>
   (rdata_classes st (c, t) = None \<and> rdata_classes st (rdatatype_ANY, t) = None \<and>
    rdataclass_to_text E c = Inr ctext \<and>
    rdatatype_to_text E (rdatatype_names st) t = Inr ttext \<and>
    load_class E ctext (replace_dash ttext) = Inl ImportError \<and>
    load_class E ''ANY'' (replace_dash ttext) = Inr k \<longrightarrow>
      get_rdata_class E st c t =
        (Inr k, cache_put (cache_put st (rdataclass_ANY, t) k) (c, t) k) \<and>
      rdata_classes (cache_put (cache_put st (rdataclass_ANY, t) k) (c, t) k)
        (rdataclass_ANY, t) = Some k \<and>
      rdata_classes (cache_put (cache_put st (rdataclass_ANY, t) k) (c, t) k) (c, t) = Some k) \<and>
   (rdata_classes st (c, t) = None \<and> rdata_classes st (rdatatype_ANY, t) = None \<and>
    rdataclass_to_text E c = Inr ctext \<and>
    rdatatype_to_text E (rdatatype_names st) t = Inr ttext \<and>
    load_class E ctext (replace_dash ttext) = Inl ImportError \<and>
    load_class E ''ANY'' (replace_dash ttext) = Inl ImportError \<longrightarrow>
      get_rdata_class E st c t = (Inr GenericRdata_cls, cache_put st (c, t) GenericRdata_cls) \<and>
      rdata_classes (cache_put st (c, t) GenericRdata_cls) (c, t) = Some GenericRdata_cls \<and>
      get_rdata_class E' (cache_put st (c, t) GenericRdata_cls) c t =
        (Inr GenericRdata_cls, cache_put st (c, t) GenericRdata_cls)) \<and>
   (get_rdata_class E st c t = (Inr k, st1) \<longrightarrow> get_rdata_class E' st1 c t = (Inr k, st1))"
proof -
  have s1: "get_rdata_class E st c t = (Inr k, st)" if "rdata_classes st (c, t) = Some k"
    using that by (rule get_rdata_class_hit)
  have s2: "get_rdata_class E st c t = (Inr k, st)"
    if "rdata_classes st (c, t) = None \<and> rdata_classes st (rdatatype_ANY, t) = Some k"
    using that by (intro get_rdata_class_any_hit) simp_all
  have s3: "get_rdata_class E st c t = (Inr k, cache_put st (c, t) k) \<and>
      rdata_classes (cache_put st (c, t) k) (c, t) = Some k"
    if "rdata_classes st (c, t) = None \<and> rdata_classes st (rdatatype_ANY, t) = None \<and>
      rdataclass_to_text E c = Inr ctext \<and>
      rdatatype_to_text E (rdatatype_names st) t = Inr ttext \<and>
      load_class E ctext (replace_dash ttext) = Inr k"
    using that get_rdata_class_specific[of st c t E ctext ttext k]
    by (simp add: cache_put_lookup)
  have s4: "get_rdata_class E st c t =
        (Inr k, cache_put (cache_put st (rdataclass_ANY, t) k) (c, t) k) \<and>
      rdata_classes (cache_put (cache_put st (rdataclass_ANY, t) k) (c, t) k)
        (rdataclass_ANY, t) = Some k \<and>
      rdata_classes (cache_put (cache_put st (rdataclass_ANY, t) k) (c, t) k) (c, t) = Some k"
    if "rdata_classes st (c, t) = None \<and> rdata_classes st (rdatatype_ANY, t) = None \<and>
      rdataclass_to_text E c = Inr ctext \<and>
      rdatatype_to_text E (rdatatype_names st) t = Inr ttext \<and>
      load_class E ctext (replace_dash ttext) = Inl ImportError \<and>
      load_class E ''ANY'' (replace_dash ttext) = Inr k"
    using that get_rdata_class_any_load[of st c t E ctext ttext k]
    by (simp add: cache_put_def)
  have s5: "get_rdata_class E st c t = (Inr GenericRdata_cls, cache_put st (c, t) GenericRdata_cls) \<and>
      rdata_classes (cache_put st (c, t) GenericRdata_cls) (c, t) = Some GenericRdata_cls \<and>
      get_rdata_class E' (cache_put st (c, t) GenericRdata_cls) c t =
        (Inr GenericRdata_cls, cache_put st (c, t) GenericRdata_cls)"
    if "rdata_classes st (c, t) = None \<and> rdata_classes st (rdatatype_ANY, t) = None \<and>
      rdataclass_to_text E c = Inr ctext \<and>
      rdatatype_to_text E (rdatatype_names st) t = Inr ttext \<and>
      load_class E ctext (replace_dash ttext) = Inl ImportError \<and>
      load_class E ''ANY'' (replace_dash ttext) = Inl ImportError"
    using that get_rdata_class_generic[of st c t E ctext ttext]
      get_rdata_class_hit[of "cache_put st (c, t) GenericRdata_cls" c t GenericRdata_cls E']
    by (simp add: cache_put_lookup)
  have s6: "get_rdata_class E' st1 c t = (Inr k, st1)"
    if "get_rdata_class E st c t = (Inr k, st1)"
    using that by (rule get_rdata_class_stable)
  from s1 s2 s3 s4 s5 s6 show ?thesis by blast
qed

theorem get_rdata_class_resolution_witness:
  "get_rdata_class bare_environment empty_state rdataclass_IN 9999
     = (Inr GenericRdata_cls, cache_put empty_state (rdataclass_IN, 9999) GenericRdata_cls) \<and>
   get_rdata_class
       (bare_environment\<lparr>import_module := (\<lambda>path. Inr [''TYPE9999'' \<mapsto> Variant_cls ''T'']) \<rparr>)
       (cache_put empty_state (rdataclass_IN, 9999) GenericRdata_cls) rdataclass_IN 9999
     = (Inr GenericRdata_cls, cache_put empty_state (rdataclass_IN, 9999) GenericRdata_cls) \<and>
   get_rdata_class
       (bare_environment\<lparr>import_module := (\<lambda>path. Inr [''TYPE9999'' \<mapsto> Variant_cls ''T'']) \<rparr>)
       empty_state rdataclass_IN 9999
     = (Inr (Variant_cls ''T''), cache_put empty_state (rdataclass_IN, 9999) (Variant_cls ''T'')) \<and>
   get_rdata_class
       (bare_environment\<lparr>import_module :=
          (\<lambda>path. if path = ''dns.rdtypes.ANY.TYPE9999''
                   then Inr [''TYPE9999'' \<mapsto> Variant_cls ''T''] else Inl ImportError) \<rparr>)
       empty_state rdataclass_IN 9999
     = (Inr (Variant_cls ''T''),
        cache_put (cache_put empty_state (rdataclass_ANY, 9999) (Variant_cls ''T''))
          (rdataclass_IN, 9999) (Variant_cls ''T'')) \<and>
   get_rdata_class bare_environment
       (cache_put empty_state (rdatatype_ANY, 1) (Variant_cls ''A'')) rdataclass_IN 1
     = (Inr (Variant_cls ''A''), cache_put empty_state (rdatatype_ANY, 1) (Variant_cls ''A''))"
  using get_rdata_class_resolution [of empty_state rdataclass_IN 9999 GenericRdata_cls
      bare_environment "''IN''" "''TYPE9999''"
      "bare_environment\<lparr>import_module := (\<lambda>path. Inr [''TYPE9999'' \<mapsto> Variant_cls ''T'']) \<rparr>"
      "cache_put empty_state (rdataclass_IN, 9999) GenericRdata_cls"]
    get_rdata_class_resolution [of empty_state rdataclass_IN 9999 "Variant_cls ''T''"
      "bare_environment\<lparr>import_module := (\<lambda>path. Inr [''TYPE9999'' \<mapsto> Variant_cls ''T'']) \<rparr>"
      "''IN''" "''TYPE9999''" bare_environment
      "cache_put empty_state (rdataclass_IN, 9999) (Variant_cls ''T'')"]
    get_rdata_class_resolution [of empty_state rdataclass_IN 9999 "Variant_cls ''T''"
      "bare_environment\<lparr>import_module :=
          (\<lambda>path. if path = ''dns.rdtypes.ANY.TYPE9999''
                   then Inr [''TYPE9999'' \<mapsto> Variant_cls ''T''] else Inl ImportError) \<rparr>"
      "''IN''" "''TYPE9999''" bare_environment
      "cache_put empty_state (rdataclass_IN, 9999) (Variant_cls ''T'')"]
    get_rdata_class_resolution [of
      "cache_put empty_state (rdatatype_ANY, 1) (Variant_cls ''A'')" rdataclass_IN 1
      "Variant_cls ''A''" bare_environment "''IN''" "''TYPE9999''" bare_environment
      "cache_put empty_state (rdatatype_ANY, 1) (Variant_cls ''A'')"]
  by (simp add: get_rdata_class_def load_class_def module_path_def module_prefix_def
      replace_dash_def bare_environment_def empty_state_def cache_put_def
      rdataclass_IN_def rdataclass_ANY_def rdatatype_ANY_def)

section \<open>Properties of register_type\<close>

lemma register_type_resolved:
  assumes "get_rdata_class E st c t = (Inr k0, st1)"
  shows "register_type E st impl t tname sing c =
     (if k0 \<noteq> GenericRdata_cls then (Inl (RdatatypeExists c t), st1)
      else case impl (replace_dash tname) of
             None \<Rightarrow> (Inl AttributeError, st1)
           | Some k \<Rightarrow> (Inr (), registered st1 c t k tname sing))"
  using assms by (simp add: register_type_def registered_def split: option.splits)

lemma register_type_unresolved:
  assumes "get_rdata_class E st c t = (Inl e, st1)"
  shows "register_type E st impl t tname sing c = (Inl e, st1)"
  using assms by (simp add: register_type_def)

lemma registered_lookup:
  "rdata_classes (registered st1 c t k tname sing) (c, t) = Some k"
  "by_value (rdatatype_names (registered st1 c t k tname sing)) t = Some tname"
  "by_text (rdatatype_names (registered st1 c t k tname sing)) tname = Some t"
  "t \<in> singletons (rdatatype_names (registered st1 c t k tname sing)) \<longleftrightarrow>
     sing \<or> t \<in> singletons (rdatatype_names st1)"
  by (simp_all add: registered_def cache_put_def rdatatype_register_type_def)

lemma register_type_again:
  "register_type E' (registered st1 c t k tname sing) impl' t tname' sing' c =
     (if k \<noteq> GenericRdata_cls
      then (Inl (RdatatypeExists c t), registered st1 c t k tname sing)
      else case impl' (replace_dash tname') of
             None \<Rightarrow> (Inl AttributeError, registered st1 c t k tname sing)
           | Some k' \<Rightarrow>
               (Inr (), registered (registered st1 c t k tname sing) c t k' tname' sing'))"
  by (rule register_type_resolved) (rule get_rdata_class_hit, rule registered_lookup)

lemma register_type_exists_iff:
  assumes "\<forall>e st1. get_rdata_class E st c t = (Inl e, st1) \<longrightarrow> e \<noteq> RdatatypeExists c t"
  shows "fst (register_type E st impl t tname sing c) = Inl (RdatatypeExists c t) \<longleftrightarrow>
     (\<exists>k st1. get_rdata_class E st c t = (Inr k, st1) \<and> k \<noteq> GenericRdata_cls)"
proof (cases "get_rdata_class E st c t")
  case (Pair r st1)
  show ?thesis
  proof (cases r)
    case (Inl e)
    with Pair assms have "e \<noteq> RdatatypeExists c t" by blast
    with Pair Inl show ?thesis
      by (simp add: register_type_unresolved)
  next
    case (Inr k0)
    with Pair show ?thesis
      by (simp add: register_type_resolved split: option.splits)
  qed
qed

text \<open>
  C4: when the resolution of the key returns a class, \<open>register_type\<close> raises
  \<^verbatim>\<open>RdatatypeExists\<close> exactly when that class is not the generic one (and when the
  resolution itself raises, that exception is passed on, so with a resolution that never
  raises \<^verbatim>\<open>RdatatypeExists\<close> the error is raised if and only if the key resolves to a
  class other than the generic one). When the key resolves to the generic class and the
  implementation module has the class, the call returns, the key is bound to that class,
  and the registry of type names holds the display name and the singleton flag. A second
  registration of the same key then raises \<^verbatim>\<open>RdatatypeExists\<close> exactly when the class
  bound by the first is not the generic one.
\<close>

theorem register_type_exists:
  "(get_rdata_class E st c t = (Inr k0, st1) \<longrightarrow>
      (fst (register_type E st impl t tname sing c) = Inl (RdatatypeExists c t)
         \<longleftrightarrow> k0 \<noteq> GenericRdata_cls) \<and>
      (k0 \<noteq> GenericRdata_cls \<longrightarrow>
         register_type E st impl t tname sing c = (Inl (RdatatypeExists c t), st1))) \<and>
   (get_rdata_class E st c t = (Inl e, st1) \<longrightarrow>
      register_type E st impl t tname sing c = (Inl e, st1)) \<and>
   ((\<forall>e st1. get_rdata_class E st c t = (Inl e, st1) \<longrightarrow> e \<noteq> RdatatypeExists c t) \<longrightarrow>
      (fst (register_type E st impl t tname sing c) = Inl (RdatatypeExists c t) \<longleftrightarrow>
         (\<exists>k st1. get_rdata_class E st c t = (Inr k, st1) \<and> k \<noteq> GenericRdata_cls))) \<and>
   (get_rdata_class E st c t = (Inr GenericRdata_cls, st1) \<and>
    impl (replace_dash tname) = Some k \<longrightarrow>
      register_type E st impl t tname sing c = (Inr (), registered st1 c t k tname sing) \<and>
      rdata_classes (registered st1 c t k tname sing) (c, t) = Some k \<and>
      by_value (rdatatype_names (registered st1 c t k tname sing)) t = Some tname \<and>
      by_text (rdatatype_names (registered st1 c t k tname sing)) tname = Some t \<and>
      (t \<in> singletons (rdatatype_names (registered st1 c t k tname sing)) \<longleftrightarrow>
         sing \<or> t \<in> singletons (rdatatype_names st1)) \<and>
      (fst (register_type E' (registered st1 c t k tname sing) impl' t tname' sing' c)
         = Inl (RdatatypeExists c t) \<longleftrightarrow> k \<noteq> GenericRdata_cls))"
proof -
  have resolved: "(fst (register_type E st impl t tname sing c) = Inl (RdatatypeExists c t)
         \<longleftrightarrow> k0 \<noteq> GenericRdata_cls) \<and>
      (k0 \<noteq> GenericRdata_cls \<longrightarrow>
         register_type E st impl t tname sing c = (Inl (RdatatypeExists c t), st1))"
    if "get_rdata_class E st c t = (Inr k0, st1)"
    by (simp add: register_type_resolved[OF that] split: option.splits)
  have unresolved: "register_type E st impl t tname sing c = (Inl e, st1)"
    if "get_rdata_class E st c t = (Inl e, st1)"
    using that by (rule register_type_unresolved)
  have iff: "fst (register_type E st impl t tname sing c) = Inl (RdatatypeExists c t) \<longleftrightarrow>
         (\<exists>k st1. get_rdata_class E st c t = (Inr k, st1) \<and> k \<noteq> GenericRdata_cls)"
    if "\<forall>e st1. get_rdata_class E st c t = (Inl e, st1) \<longrightarrow> e \<noteq> RdatatypeExists c t"
    using that by (rule register_type_exists_iff)
  have success: "register_type E st impl t tname sing c = (Inr (), registered st1 c t k tname sing) \<and>
      rdata_classes (registered st1 c t k tname sing) (c, t) = Some k \<and>
      by_value (rdatatype_names (registered st1 c t k tname sing)) t = Some tname \<and>
      by_text (rdatatype_names (registered st1 c t k tname sing)) tname = Some t \<and>
      (t \<in> singletons (rdatatype_names (registered st1 c t k tname sing)) \<longleftrightarrow>
         sing \<or> t \<in> singletons (rdatatype_names st1)) \<and>
      (fst (register_type E' (registered st1 c t k tname sing) impl' t tname' sing' c)
         = Inl (RdatatypeExists c t) \<longleftrightarrow> k \<noteq> GenericRdata_cls)"
    if h: "get_rdata_class E st c t = (Inr GenericRdata_cls, st1) \<and>
      impl (replace_dash tname) = Some k"
  proof -
    from h have g: "get_rdata_class E st c t = (Inr GenericRdata_cls, st1)"
      and i: "impl (replace_dash tname) = Some k" by simp_all
    have call1: "register_type E st impl t tname sing c = (Inr (), registered st1 c t k tname sing)"
      by (simp add: register_type_resolved[OF g] i)
    have call2: "fst (register_type E' (registered st1 c t k tname sing) impl' t tname' sing' c)
         = Inl (RdatatypeExists c t) \<longleftrightarrow> k \<noteq> GenericRdata_cls"
      by (simp add: register_type_again split: option.splits)
    from call1 call2 show ?thesis
      by (simp add: registered_lookup)
  qed
  from resolved unresolved iff success show ?thesis by blast
qed

theorem register_type_exists_witness:
  "register_type bare_environment empty_state [''TYPE9999'' \<mapsto> Variant_cls ''T''] 9999
      ''TYPE9999'' False rdataclass_IN
     = (Inr (),
        registered (cache_put empty_state (rdataclass_IN, 9999) GenericRdata_cls)
          rdataclass_IN 9999 (Variant_cls ''T'') ''TYPE9999'' False) \<and>
   fst (register_type bare_environment
          (registered (cache_put empty_state (rdataclass_IN, 9999) GenericRdata_cls)
             rdataclass_IN 9999 (Variant_cls ''T'') ''TYPE9999'' False)
          [''TYPE9999'' \<mapsto> Variant_cls ''T''] 9999 ''TYPE9999'' False rdataclass_IN)
     = Inl (RdatatypeExists rdataclass_IN 9999) \<and>
   fst (register_type bare_environment
          (cache_put empty_state (rdataclass_IN, 9999) (Variant_cls ''U''))
          [''TYPE9999'' \<mapsto> Variant_cls ''T''] 9999 ''TYPE9999'' False rdataclass_IN)
     = Inl (RdatatypeExists rdataclass_IN 9999)"
  using register_type_exists [of bare_environment empty_state rdataclass_IN 9999 GenericRdata_cls
      "cache_put empty_state (rdataclass_IN, 9999) GenericRdata_cls"
      "[''TYPE9999'' \<mapsto> Variant_cls ''T'']" "''TYPE9999''" False ImportError
      "Variant_cls ''T''" bare_environment "[''TYPE9999'' \<mapsto> Variant_cls ''T'']"
      "''TYPE9999''" False]
    register_type_exists [of bare_environment
      "cache_put empty_state (rdataclass_IN, 9999) (Variant_cls ''U'')" rdataclass_IN 9999
      "Variant_cls ''U''" "cache_put empty_state (rdataclass_IN, 9999) (Variant_cls ''U'')"
      "[''TYPE9999'' \<mapsto> Variant_cls ''T'']" "''TYPE9999''" False ImportError
      "Variant_cls ''T''" bare_environment "[''TYPE9999'' \<mapsto> Variant_cls ''T'']"
      "''TYPE9999''" False]
  by (simp add: get_rdata_class_def load_class_def module_path_def module_prefix_def
      replace_dash_def bare_environment_def empty_state_def cache_put_def
      rdataclass_IN_def rdataclass_ANY_def rdatatype_ANY_def)

section \<open>Properties of the dispatch\<close>











end
